theory Spec2Isabelle
  imports Complex_Main "HOL-Library.Sublist"
begin

section \<open>App Mesh virtual nodes: data model\<close>

text \<open>
  The embedding follows \<^verbatim>\<open>packages/@aws-cdk/aws-appmesh/lib/virtual-node.ts\<close> and the
  client-policy source file. Option objects and rendered property objects are records,
  an optional field \<^verbatim>\<open>f?: T\<close> is a field of type \<open>T option\<close> (\<open>None\<close> is
  \<^verbatim>\<open>undefined\<close>), a thrown \<^verbatim>\<open>Error\<close> is a value of type \<open>error\<close>, and a method that
  mutates \<^verbatim>\<open>this\<close> takes the node and returns the node as the call leaves it together
  with the error it threw, if any. Counts and ports are integers, numbers of
  milliseconds are rationals, strings are \<open>string\<close>.
\<close>

datatype error =
    AtMostOneListener       \<comment> \<open>'VirtualNode may have at most one listener'\<close>
  | PathWithTCP             \<comment> \<open>'The path property cannot be set with Protocol.TCP'\<close>
  | PathWithGRPC            \<comment> \<open>'The path property cannot be set with Protocol.GRPC'\<close>
  | NotWholeMillis          \<comment> \<open>what \<^verbatim>\<open>toMilliseconds\<close> throws: '... cannot be converted into a whole number of millis'\<close>
  | HealthCheckRejected     \<comment> \<open>whatever \<^verbatim>\<open>validateHealthChecks\<close> throws\<close>
  | OnlyOneBackendDefault   \<comment> \<open>'Virtual Node can have only one backend default'\<close>

text \<open>
  The enum \<^verbatim>\<open>Protocol\<close> is declared in \<^verbatim>\<open>shared-interfaces\<close>. The members this file
  names are HTTP, TCP and GRPC; every other member is an \<open>OtherProtocol\<close>. Its members
  are non-empty strings, so each of them is truthy.
\<close>

datatype Protocol = HTTP | TCP | GRPC | OtherProtocol string

text \<open>
  \<^verbatim>\<open>cdk.Duration\<close> is a class of the core package. The code here does one thing with a
  \<^verbatim>\<open>Duration\<close>: it calls \<^verbatim>\<open>toMilliseconds()\<close> on it, and that call returns a number of
  milliseconds or throws, as it does on \<^verbatim>\<open>Duration.seconds(2.0005)\<close>: '2.0005 seconds' cannot
  be converted into a whole number of millis. The conversion is floating-point arithmetic
  of the core package, so a \<^verbatim>\<open>Duration\<close> is represented by what the call does on it: every
  \<^verbatim>\<open>Duration\<close> a caller can pass, of whatever amount and unit, is one of the two. A
  \<^verbatim>\<open>Duration\<close> is an object, hence truthy.
\<close>

datatype Duration =
    Converts rat        \<comment> \<open>\<^verbatim>\<open>toMilliseconds()\<close> returns this number\<close>
  | ConversionThrows    \<comment> \<open>\<^verbatim>\<open>toMilliseconds()\<close> throws\<close>

text \<open>\<^verbatim>\<open>Duration.seconds(n)\<close> for a whole number of seconds.\<close>

definition Duration_seconds :: "int \<Rightarrow> Duration" where
  "Duration_seconds n = Converts (of_int n * 1000)"

fun toMilliseconds :: "Duration \<Rightarrow> error + rat" where
  "toMilliseconds (Converts ms) = Inr ms"
| "toMilliseconds ConversionThrows = Inl NotWholeMillis"

record PortMapping =
  port :: int
  protocol :: Protocol

record HealthCheck =
  healthyThreshold :: "int option"
  interval :: "Duration option"
  path :: "string option"
  port :: "int option"
  protocol :: "Protocol option"
  timeout :: "Duration option"
  unhealthyThreshold :: "int option"

record VirtualNodeListener =
  portMapping :: "PortMapping option"
  healthCheck :: "HealthCheck option"

record IVirtualService =
  virtualServiceName :: string

text \<open>The rendered shapes of \<^verbatim>\<open>CfnVirtualNode\<close>.\<close>

record HealthCheckProperty =
  healthyThreshold :: int
  intervalMillis :: rat
  path :: "string option"
  port :: int
  protocol :: Protocol
  timeoutMillis :: rat
  unhealthyThreshold :: int

record ListenerProperty =
  portMapping :: PortMapping
  healthCheck :: "HealthCheckProperty option"

record VirtualServiceBackendProperty =
  virtualServiceName :: string

record BackendProperty =
  virtualService :: VirtualServiceBackendProperty

subsection \<open>TLS client validation (virtual-node.ts)\<close>

record FileTrustOptions =
  certificateChain :: string

record ACMTrustOptions =
  certificateAuthorityArns :: "string list"

text \<open>
  The two subclasses of the abstract class \<^verbatim>\<open>TLSClientValidation\<close>, each with the one
  field its constructor stores.
\<close>

datatype TLSClientValidation =
    FileTrust (certificateChain: string)
  | ACMTrust (certificateAuthorityArns: "string list")

record TlsValidationContextFileTrustProperty =
  certificateChain :: string

record TlsValidationContextAcmTrustProperty =
  certificateAuthorityArns :: "string list"

record TlsValidationContextTrustProperty =
  acm :: "TlsValidationContextAcmTrustProperty option"
  "file" :: "TlsValidationContextFileTrustProperty option"

record TlsValidationContextProperty =
  trust :: TlsValidationContextTrustProperty

record TLSValidationConfig =
  tlsValidation :: TlsValidationContextProperty

definition TLSClientValidation_fileTrust :: "FileTrustOptions \<Rightarrow> TLSClientValidation" where
  "TLSClientValidation_fileTrust props = FileTrust (FileTrustOptions.certificateChain props)"

definition TLSClientValidation_acmTrust :: "ACMTrustOptions \<Rightarrow> TLSClientValidation" where
  "TLSClientValidation_acmTrust props = ACMTrust (ACMTrustOptions.certificateAuthorityArns props)"

text \<open>\<^verbatim>\<open>bind\<close> ignores its scope in both subclasses.\<close>

fun TLSClientValidation_bind :: "TLSClientValidation \<Rightarrow> 'scope \<Rightarrow> TLSValidationConfig" where
  "TLSClientValidation_bind (FileTrust chain) scope =
     \<lparr>tlsValidation = \<lparr>trust =
        \<lparr>acm = None,
         file = Some \<lparr>TlsValidationContextFileTrustProperty.certificateChain = chain\<rparr>\<rparr>\<rparr>\<rparr>"
| "TLSClientValidation_bind (ACMTrust arns) scope =
     \<lparr>tlsValidation = \<lparr>trust =
        \<lparr>acm = Some \<lparr>TlsValidationContextAcmTrustProperty.certificateAuthorityArns = arns\<rparr>,
         file = None\<rparr>\<rparr>\<rparr>"

record TLSClientPolicyOptions =
  enforce :: "bool option"
  ports :: "int list option"
  validation :: TLSClientValidation

record BackendDefaults =
  tlsClientPolicy :: TLSClientPolicyOptions

record ClientPolicyTlsProperty =
  enforce :: bool
  validation :: TlsValidationContextProperty
  ports :: "int list option"

record ClientPolicyProperty =
  tls :: ClientPolicyTlsProperty

record BackendDefaultsProperty =
  clientPolicy :: ClientPolicyProperty

section \<open>The virtual node and its mutators\<close>

text \<open>
  The properties the constructor passes to the mutators. The remaining properties
  (name, service discovery, access log, mesh) only reach the rendered resource.
\<close>

record VirtualNodeProps =
  backends :: "IVirtualService list option"
  listener :: "VirtualNodeListener option"
  backendDefaults :: "BackendDefaults option"

text \<open>
  \<^verbatim>\<open>VirtualNodeBase\<close> holds the backends and the listeners; \<^verbatim>\<open>VirtualNode\<close> extends it
  with the backend defaults. The other members (name, ARN, mesh) are never read by the
  mutators and are left out.
\<close>

record VirtualNodeBase =
  backends :: "BackendProperty list"
  listeners :: "ListenerProperty list"

record VirtualNode = VirtualNodeBase +
  backendDefaults :: "BackendDefaultsProperty list"

text \<open>
  \<^verbatim>\<open>validateHealthChecks\<close> lives in \<^verbatim>\<open>private/utils\<close>. It is called for its exception
  only, so it enters the model as a parameter: the predicate of the rendered health
  checks on which it returns normally.
\<close>

type_synonym validateHealthChecks = "HealthCheckProperty \<Rightarrow> bool"

text \<open>The loop of \<^verbatim>\<open>addBackends\<close>: one push per argument.\<close>

fun addBackends_loop :: "'a VirtualNodeBase_scheme \<Rightarrow> IVirtualService list \<Rightarrow> 'a VirtualNodeBase_scheme" where
  "addBackends_loop this [] = this"
| "addBackends_loop this (s # props) =
     addBackends_loop
       (this\<lparr>backends := backends this @
          [\<lparr>virtualService =
              \<lparr>VirtualServiceBackendProperty.virtualServiceName = IVirtualService.virtualServiceName s\<rparr>\<rparr>]\<rparr>)
       props"

definition addBackends ::
  "'a VirtualNodeBase_scheme \<Rightarrow> IVirtualService list \<Rightarrow> 'a VirtualNodeBase_scheme \<times> error option" where
  "addBackends this props = (addBackends_loop this props, None)"

text \<open>The operator \<^verbatim>\<open>||\<close> on an optional number (0 is falsy) and on an optional string ('' is falsy).\<close>

definition or_number :: "int option \<Rightarrow> int \<Rightarrow> int" where
  "or_number x d = (case x of None \<Rightarrow> d | Some n \<Rightarrow> if n = 0 then d else n)"

definition truthy_string :: "string option \<Rightarrow> bool" where
  "truthy_string x = (case x of None \<Rightarrow> False | Some s \<Rightarrow> s \<noteq> [])"

text \<open>
  The object literal \<^verbatim>\<open>healthCheck\<close> of \<^verbatim>\<open>renderHealthCheck\<close>, its members evaluated in
  the order written: either conversion to milliseconds may throw, the interval's first.
  The constant \<^verbatim>\<open>protocol\<close> is \<^verbatim>\<open>hc.protocol ?? pm.protocol\<close>; the field \<^verbatim>\<open>protocol\<close> is
  \<^verbatim>\<open>hc.protocol || pm.protocol\<close>, which is the same value, every member of the enum being
  truthy.
\<close>

definition healthCheckProperty :: "HealthCheck \<Rightarrow> PortMapping \<Rightarrow> error + HealthCheckProperty" where
  "healthCheckProperty hc pm =
     (let protocol = (case HealthCheck.protocol hc of None \<Rightarrow> PortMapping.protocol pm | Some p \<Rightarrow> p)
      in case toMilliseconds (case interval hc of None \<Rightarrow> Duration_seconds 5 | Some d \<Rightarrow> d) of
           Inl e \<Rightarrow> Inl e
         | Inr interval_ms \<Rightarrow>
             (case toMilliseconds (case timeout hc of None \<Rightarrow> Duration_seconds 2 | Some d \<Rightarrow> d) of
                Inl e \<Rightarrow> Inl e
              | Inr timeout_ms \<Rightarrow>
                  Inr \<lparr>HealthCheckProperty.healthyThreshold =
                         or_number (HealthCheck.healthyThreshold hc) 2,
                       intervalMillis = interval_ms,
                       path =
                         (if truthy_string (HealthCheck.path hc) then HealthCheck.path hc
                          else if protocol = HTTP then Some ''/'' else None),
                       port = or_number (HealthCheck.port hc) (PortMapping.port pm),
                       protocol =
                         (case HealthCheck.protocol hc of
                            None \<Rightarrow> PortMapping.protocol pm | Some p \<Rightarrow> p),
                       timeoutMillis = timeout_ms,
                       unhealthyThreshold = or_number (HealthCheck.unhealthyThreshold hc) 2\<rparr>))"

definition renderHealthCheck ::
  "validateHealthChecks \<Rightarrow> HealthCheck option \<Rightarrow> PortMapping \<Rightarrow> error + HealthCheckProperty option" where
  "renderHealthCheck validate hc pm =
     (case hc of
        None \<Rightarrow> Inr None
      | Some hc \<Rightarrow>
          if HealthCheck.protocol hc = Some TCP \<and> truthy_string (HealthCheck.path hc)
            then Inl PathWithTCP
          else if HealthCheck.protocol hc = Some GRPC \<and> truthy_string (HealthCheck.path hc)
            then Inl PathWithGRPC
          else case healthCheckProperty hc pm of
                 Inl e \<Rightarrow> Inl e
               | Inr hcp \<Rightarrow>
                   if validate hcp then Inr (Some hcp) else Inl HealthCheckRejected)"

text \<open>
  \<^verbatim>\<open>listener.portMapping || { port: 8080, protocol: Protocol.HTTP }\<close>: a port mapping is an
  object, hence truthy when present.
\<close>

definition portMappingOf :: "VirtualNodeListener \<Rightarrow> PortMapping" where
  "portMappingOf l =
     (case VirtualNodeListener.portMapping l of
        None \<Rightarrow> \<lparr>PortMapping.port = 8080, protocol = HTTP\<rparr>
      | Some pm \<Rightarrow> pm)"

text \<open>
  The loop of \<^verbatim>\<open>addListeners\<close>. A throw leaves the loop with the node as the pushes
  before it made it.
\<close>

fun addListeners_loop ::
  "validateHealthChecks \<Rightarrow> 'a VirtualNodeBase_scheme \<Rightarrow> VirtualNodeListener list
     \<Rightarrow> 'a VirtualNodeBase_scheme \<times> error option" where
  "addListeners_loop validate this [] = (this, None)"
| "addListeners_loop validate this (l # rest) =
     (let portMapping = portMappingOf l
      in case renderHealthCheck validate (VirtualNodeListener.healthCheck l) portMapping of
           Inl e \<Rightarrow> (this, Some e)
         | Inr hc \<Rightarrow>
             addListeners_loop validate
               (this\<lparr>listeners := listeners this @
                  [\<lparr>ListenerProperty.portMapping = portMapping, healthCheck = hc\<rparr>]\<rparr>)
               rest)"

definition addListeners ::
  "validateHealthChecks \<Rightarrow> 'a VirtualNodeBase_scheme \<Rightarrow> VirtualNodeListener list
     \<Rightarrow> 'a VirtualNodeBase_scheme \<times> error option" where
  "addListeners validate this ls =
     (if length (listeners this) + length ls > 1 then (this, Some AtMostOneListener)
      else addListeners_loop validate this ls)"

text \<open>The object literal \<^verbatim>\<open>addBackendDefaults\<close> pushes; \<^verbatim>\<open>bind\<close> receives the node as scope.\<close>

definition backendDefaultsProperty :: "VirtualNode \<Rightarrow> BackendDefaults \<Rightarrow> BackendDefaultsProperty" where
  "backendDefaultsProperty this bd =
     \<lparr>clientPolicy = \<lparr>tls =
        \<lparr>ClientPolicyTlsProperty.enforce =
           (case TLSClientPolicyOptions.enforce (tlsClientPolicy bd) of None \<Rightarrow> True | Some b \<Rightarrow> b),
         validation =
           tlsValidation (TLSClientValidation_bind
             (TLSClientPolicyOptions.validation (tlsClientPolicy bd)) this),
         ports = TLSClientPolicyOptions.ports (tlsClientPolicy bd)\<rparr>\<rparr>\<rparr>"

definition addBackendDefaults :: "VirtualNode \<Rightarrow> BackendDefaults \<Rightarrow> VirtualNode \<times> error option" where
  "addBackendDefaults this bd =
     (if length (backendDefaults this) = 0
      then (this\<lparr>backendDefaults := backendDefaults this @ [backendDefaultsProperty this bd]\<rparr>, None)
      else (this, Some OnlyOneBackendDefault))"

text \<open>The health check \<^verbatim>\<open>{}\<close>: every field omitted.\<close>

definition emptyHealthCheck :: HealthCheck where
  "emptyHealthCheck =
     \<lparr>HealthCheck.healthyThreshold = None, interval = None, path = None, port = None,
      protocol = None, timeout = None, unhealthyThreshold = None\<rparr>"

subsection \<open>Construction and use of a node\<close>

text \<open>The field initialisers: three empty arrays.\<close>

definition emptyVirtualNode :: VirtualNode where
  "emptyVirtualNode =
     \<lparr>VirtualNodeBase.backends = [], listeners = [], VirtualNode.backendDefaults = []\<rparr>"

text \<open>The constructor: an exception of a mutator leaves it, and no node comes to exist.\<close>

definition VirtualNode_new :: "validateHealthChecks \<Rightarrow> VirtualNodeProps \<Rightarrow> error + VirtualNode" where
  "VirtualNode_new validate props =
     (let this = fst (addBackends emptyVirtualNode
                   (case VirtualNodeProps.backends props of None \<Rightarrow> [] | Some bs \<Rightarrow> bs))
      in case addListeners validate this
                (case listener props of None \<Rightarrow> [] | Some l \<Rightarrow> [l]) of
           (_, Some e) \<Rightarrow> Inl e
         | (this, None) \<Rightarrow>
             (case VirtualNodeProps.backendDefaults props of
                None \<Rightarrow> Inr this
              | Some bd \<Rightarrow>
                  (case addBackendDefaults this bd of
                     (_, Some e) \<Rightarrow> Inl e
                   | (this, None) \<Rightarrow> Inr this)))"

text \<open>
  The calls a client can make on a node, and a sequence of them. A client may catch the
  error of a call and go on using the node, so a run continues from the node as the
  failed call left it.
\<close>

datatype operation =
    AddBackends "IVirtualService list"
  | AddListeners "VirtualNodeListener list"
  | AddBackendDefaults BackendDefaults

fun step :: "validateHealthChecks \<Rightarrow> VirtualNode \<Rightarrow> operation \<Rightarrow> VirtualNode \<times> error option" where
  "step validate this (AddBackends props) = addBackends this props"
| "step validate this (AddListeners ls) = addListeners validate this ls"
| "step validate this (AddBackendDefaults bd) = addBackendDefaults this bd"

fun run :: "validateHealthChecks \<Rightarrow> VirtualNode \<Rightarrow> operation list \<Rightarrow> VirtualNode" where
  "run validate this [] = this"
| "run validate this (op # ops) = run validate (fst (step validate this op)) ops"

text \<open>The operations the constructor performs for given properties.\<close>

definition constructorOps :: "VirtualNodeProps \<Rightarrow> operation list" where
  "constructorOps props =
     [AddBackends (case VirtualNodeProps.backends props of None \<Rightarrow> [] | Some bs \<Rightarrow> bs),
      AddListeners (case listener props of None \<Rightarrow> [] | Some l \<Rightarrow> [l])]
     @ (case VirtualNodeProps.backendDefaults props of None \<Rightarrow> [] | Some bd \<Rightarrow> [AddBackendDefaults bd])"

fun isAddBackendDefaults :: "operation \<Rightarrow> bool" where
  "isAddBackendDefaults (AddBackendDefaults _) = True"
| "isAddBackendDefaults _ = False"

section \<open>Client policies (the client-policy source file)\<close>

record ClientPolicyOptions =
  enforceTls :: "bool option"
  ports :: "int list option"

record AcmTrustOptions = ClientPolicyOptions +
  certificateAuthorityArns :: "string list"

text \<open>This file's \<^verbatim>\<open>FileTrustOptions\<close>: the certificate chain is a list of strings here.\<close>

record ClientPolicy_FileTrustOptions = ClientPolicyOptions +
  certificateChain :: "string list"

record ClientPolicyImpl =
  enforce :: bool
  ports :: "int list option"
  certificateType :: string
  certificate :: "string list"

text \<open>The constructor's default parameter \<^verbatim>\<open>enforce: boolean = true\<close> replaces \<^verbatim>\<open>undefined\<close>.\<close>

definition ClientPolicyImpl_new ::
  "bool option \<Rightarrow> int list option \<Rightarrow> string \<Rightarrow> string list \<Rightarrow> ClientPolicyImpl" where
  "ClientPolicyImpl_new enforce' ports' certificateType' certificate' =
     \<lparr>ClientPolicyImpl.enforce = (case enforce' of None \<Rightarrow> True | Some b \<Rightarrow> b),
      ports = ports', certificateType = certificateType', certificate = certificate'\<rparr>"

definition ClientPolicy_fileTrust :: "ClientPolicy_FileTrustOptions \<Rightarrow> ClientPolicyImpl" where
  "ClientPolicy_fileTrust props =
     ClientPolicyImpl_new (enforceTls props) (ClientPolicyOptions.ports props) ''file''
       (ClientPolicy_FileTrustOptions.certificateChain props)"

definition ClientPolicy_acmTrust :: "AcmTrustOptions \<Rightarrow> ClientPolicyImpl" where
  "ClientPolicy_acmTrust props =
     ClientPolicyImpl_new (enforceTls props) (ClientPolicyOptions.ports props) ''acm''
       (AcmTrustOptions.certificateAuthorityArns props)"

text \<open>
  \<^verbatim>\<open>renderValidation\<close> builds the trust object with a computed key, so the trust is a map
  from property names to values. The value under the key is one of the two object
  literals; \<^verbatim>\<open>this.certificate[0]\<close> is \<^verbatim>\<open>undefined\<close> on an empty array.
\<close>

datatype TrustValue =
    FileTrustValue "string option"    \<comment> \<open>\<^verbatim>\<open>{ certificateChain: ... }\<close>\<close>
  | AcmTrustValue "string list"       \<comment> \<open>\<^verbatim>\<open>{ certificateAuthorityArns: ... }\<close>\<close>

definition index0 :: "'a list \<Rightarrow> 'a option" where
  "index0 xs = (case xs of [] \<Rightarrow> None | x # _ \<Rightarrow> Some x)"

record ComputedTlsValidationContext =
  trust :: "string \<rightharpoonup> TrustValue"

record ComputedClientPolicyTls =
  ports :: "int list option"
  enforce :: bool
  validation :: ComputedTlsValidationContext

record ComputedClientPolicy =
  tls :: ComputedClientPolicyTls

record ClientPolicyConfig =
  clientPolicy :: ComputedClientPolicy

definition ClientPolicyImpl_renderValidation :: "ClientPolicyImpl \<Rightarrow> ComputedTlsValidationContext" where
  "ClientPolicyImpl_renderValidation this =
     \<lparr>ComputedTlsValidationContext.trust =
        [certificateType this \<mapsto>
           (if certificateType this = ''file''
            then FileTrustValue (index0 (certificate this))
            else AcmTrustValue (certificate this))]\<rparr>"

definition ClientPolicyImpl_bind :: "ClientPolicyImpl \<Rightarrow> 'scope \<Rightarrow> ClientPolicyConfig" where
  "ClientPolicyImpl_bind this scope =
     \<lparr>ClientPolicyConfig.clientPolicy =
        \<lparr>ComputedClientPolicy.tls =
           \<lparr>ComputedClientPolicyTls.ports = ClientPolicyImpl.ports this,
            enforce = ClientPolicyImpl.enforce this,
            validation = ClientPolicyImpl_renderValidation this\<rparr>\<rparr>\<rparr>"

section \<open>Facts about the mutators\<close>

lemma addBackends_loop_eq:
  "addBackends_loop this props =
     this\<lparr>backends := backends this @
        map (\<lambda>s. \<lparr>virtualService =
                   \<lparr>VirtualServiceBackendProperty.virtualServiceName =
                      IVirtualService.virtualServiceName s\<rparr>\<rparr>) props\<rparr>"
  by (induction props arbitrary: this) simp_all

lemma addBackends_eq:
  "addBackends this props =
     (this\<lparr>backends := backends this @
        map (\<lambda>s. \<lparr>virtualService =
                   \<lparr>VirtualServiceBackendProperty.virtualServiceName =
                      IVirtualService.virtualServiceName s\<rparr>\<rparr>) props\<rparr>, None)"
  by (simp add: addBackends_def addBackends_loop_eq)

text \<open>The conversions of the two default durations.\<close>

lemma toMilliseconds_defaults:
  "toMilliseconds (Duration_seconds 5) = Inr 5000"
  "toMilliseconds (Duration_seconds 2) = Inr 2000"
  by (simp_all add: Duration_seconds_def)

lemma toMilliseconds_Inl: "toMilliseconds d = Inl e \<Longrightarrow> e = NotWholeMillis"
  by (cases d) simp_all

text \<open>What the object literal holds when both conversions return.\<close>

lemma healthCheckProperty_Inr:
  "healthCheckProperty hc pm = Inr r \<Longrightarrow>
     toMilliseconds (case interval hc of None \<Rightarrow> Duration_seconds 5 | Some d \<Rightarrow> d)
       = Inr (intervalMillis r) \<and>
     toMilliseconds (case timeout hc of None \<Rightarrow> Duration_seconds 2 | Some d \<Rightarrow> d)
       = Inr (timeoutMillis r) \<and>
     HealthCheckProperty.healthyThreshold r = or_number (HealthCheck.healthyThreshold hc) 2 \<and>
     HealthCheckProperty.unhealthyThreshold r = or_number (HealthCheck.unhealthyThreshold hc) 2 \<and>
     HealthCheckProperty.port r = or_number (HealthCheck.port hc) (PortMapping.port pm) \<and>
     HealthCheckProperty.protocol r =
       (case HealthCheck.protocol hc of None \<Rightarrow> PortMapping.protocol pm | Some p \<Rightarrow> p) \<and>
     HealthCheckProperty.path r =
       (if truthy_string (HealthCheck.path hc) then HealthCheck.path hc
        else if (case HealthCheck.protocol hc of None \<Rightarrow> PortMapping.protocol pm | Some p \<Rightarrow> p) = HTTP
             then Some ''/'' else None)"
  by (auto simp: healthCheckProperty_def Let_def split: sum.splits)

lemma healthCheckProperty_Inl:
  "healthCheckProperty hc pm = Inl e \<Longrightarrow> e = NotWholeMillis"
  by (auto simp: healthCheckProperty_def Let_def split: sum.splits dest: toMilliseconds_Inl)

lemma healthCheckProperty_throws_iff:
  "(\<exists>e. healthCheckProperty hc pm = Inl e) \<longleftrightarrow>
     toMilliseconds (case interval hc of None \<Rightarrow> Duration_seconds 5 | Some d \<Rightarrow> d) = Inl NotWholeMillis \<or>
     toMilliseconds (case timeout hc of None \<Rightarrow> Duration_seconds 2 | Some d \<Rightarrow> d) = Inl NotWholeMillis"
  by (auto simp: healthCheckProperty_def Let_def split: sum.splits dest: toMilliseconds_Inl)

lemma healthCheckProperty_defaults:
  "healthCheckProperty hc pm = Inr r \<Longrightarrow>
   (HealthCheck.healthyThreshold hc = None \<longrightarrow> HealthCheckProperty.healthyThreshold r = 2) \<and>
   (HealthCheck.unhealthyThreshold hc = None \<longrightarrow> HealthCheckProperty.unhealthyThreshold r = 2) \<and>
   (interval hc = None \<longrightarrow> intervalMillis r = 5000) \<and>
   (timeout hc = None \<longrightarrow> timeoutMillis r = 2000) \<and>
   (HealthCheck.port hc = None \<longrightarrow> HealthCheckProperty.port r = PortMapping.port pm) \<and>
   (HealthCheck.protocol hc = None \<longrightarrow> HealthCheckProperty.protocol r = PortMapping.protocol pm) \<and>
   HealthCheckProperty.protocol r =
     (case HealthCheck.protocol hc of None \<Rightarrow> PortMapping.protocol pm | Some q \<Rightarrow> q) \<and>
   (HealthCheck.path hc = None \<longrightarrow>
      HealthCheckProperty.path r =
        (if HealthCheckProperty.protocol r = HTTP then Some ''/'' else None))"
  by (drule healthCheckProperty_Inr)
     (auto simp: toMilliseconds_defaults or_number_def truthy_string_def)

lemma renderHealthCheck_Some:
  "renderHealthCheck validate (Some hc) pm =
     (if HealthCheck.protocol hc = Some TCP \<and> truthy_string (HealthCheck.path hc) then Inl PathWithTCP
      else if HealthCheck.protocol hc = Some GRPC \<and> truthy_string (HealthCheck.path hc) then Inl PathWithGRPC
      else case healthCheckProperty hc pm of
             Inl e \<Rightarrow> Inl e
           | Inr r \<Rightarrow> if validate r then Inr (Some r) else Inl HealthCheckRejected)"
  by (simp add: renderHealthCheck_def)

lemma renderHealthCheck_None: "renderHealthCheck validate None pm = Inr None"
  by (simp add: renderHealthCheck_def)

lemma renderHealthCheck_Inr:
  "renderHealthCheck validate hc pm = Inr r \<Longrightarrow>
     (hc = None \<and> r = None) \<or>
     (\<exists>h p. hc = Some h \<and> r = Some p \<and> healthCheckProperty h pm = Inr p \<and> validate p)"
  by (cases hc) (auto simp: renderHealthCheck_Some renderHealthCheck_None split: if_splits sum.splits)

lemma addListeners_loop_single:
  "addListeners_loop validate this [l] =
     (case renderHealthCheck validate (VirtualNodeListener.healthCheck l) (portMappingOf l) of
        Inl e \<Rightarrow> (this, Some e)
      | Inr hc \<Rightarrow>
          (this\<lparr>listeners := listeners this @
             [\<lparr>ListenerProperty.portMapping = portMappingOf l, healthCheck = hc\<rparr>]\<rparr>, None))"
  by (simp add: Let_def split: sum.splits)

lemma at_most_one: "length ls \<le> 1 \<Longrightarrow> ls = [] \<or> (\<exists>l. ls = [l])"
  by (cases ls) auto

text \<open>
  Past the cardinality check the loop of \<^verbatim>\<open>addListeners\<close> runs at most once, so the whole
  method is one case distinction.
\<close>

lemma addListeners_cases:
  "addListeners validate this ls =
     (if length (listeners this) + length ls > 1 then (this, Some AtMostOneListener)
      else case ls of
             [] \<Rightarrow> (this, None)
           | l # _ \<Rightarrow>
               (case renderHealthCheck validate (VirtualNodeListener.healthCheck l) (portMappingOf l) of
                  Inl e \<Rightarrow> (this, Some e)
                | Inr hc \<Rightarrow>
                    (this\<lparr>listeners := listeners this @
                       [\<lparr>ListenerProperty.portMapping = portMappingOf l, healthCheck = hc\<rparr>]\<rparr>, None)))"
proof (cases "length (listeners this) + length ls > 1")
  case True
  then show ?thesis by (simp add: addListeners_def)
next
  case False
  then have "length ls \<le> 1" by simp
  then consider "ls = []" | l where "ls = [l]" using at_most_one by blast
  then show ?thesis
  proof cases
    case 1
    with False show ?thesis by (simp add: addListeners_def)
  next
    case 2
    with False show ?thesis
      by (simp only: addListeners_def addListeners_loop_single if_False list.case)
  qed
qed

lemma addListeners_length:
  "length (listeners this) \<le> 1 \<Longrightarrow> length (listeners (fst (addListeners validate this ls))) \<le> 1"
  by (auto simp: addListeners_cases split: if_splits list.splits sum.splits)

lemma addListeners_frame:
  "backends (fst (addListeners validate this ls)) = backends this"
  "VirtualNodeBase.more (fst (addListeners validate this ls)) = VirtualNodeBase.more this"
  by (auto simp: addListeners_cases split: if_splits list.splits sum.splits)

lemma addListeners_frame_backendDefaults:
  "backendDefaults (fst (addListeners validate this ls)) = backendDefaults this"
  by (auto simp: addListeners_cases split: if_splits list.splits sum.splits)

lemma step_listeners_length:
  "length (listeners this) \<le> 1 \<Longrightarrow> length (listeners (fst (step validate this op))) \<le> 1"
proof (cases op)
  case (AddListeners ls)
  assume "length (listeners this) \<le> 1"
  then show ?thesis unfolding AddListeners step.simps by (rule addListeners_length)
qed (simp_all add: addBackends_eq addBackendDefaults_def)

lemma run_listeners_length:
  "length (listeners this) \<le> 1 \<Longrightarrow> length (listeners (run validate this ops)) \<le> 1"
proof (induction ops arbitrary: this)
  case Nil
  then show ?case by simp
next
  case (Cons op ops)
  from Cons.prems have "length (listeners (fst (step validate this op))) \<le> 1"
    by (rule step_listeners_length)
  then show ?case unfolding run.simps by (rule Cons.IH)
qed

text \<open>A node the constructor returns is the empty node after the constructor's calls.\<close>

lemma VirtualNode_new_run:
  "VirtualNode_new validate props = Inr this \<Longrightarrow>
     this = run validate emptyVirtualNode (constructorOps props)"
  by (auto simp: VirtualNode_new_def constructorOps_def Let_def split: prod.splits option.splits)

lemma addBackendDefaults_cases:
  "addBackendDefaults this bd =
     (if backendDefaults this = []
      then (this\<lparr>backendDefaults := [backendDefaultsProperty this bd]\<rparr>, None)
      else (this, Some OnlyOneBackendDefault))"
  by (simp add: addBackendDefaults_def)

lemma step_prefix:
  "prefix (backends this) (backends (fst (step validate this op)))"
  "prefix (listeners this) (listeners (fst (step validate this op)))"
  "prefix (backendDefaults this) (backendDefaults (fst (step validate this op)))"
  by (cases op; auto simp: addBackends_eq addBackendDefaults_cases addListeners_cases
        split: if_splits list.splits sum.splits)+

lemma run_prefix:
  "prefix (backends this) (backends (run validate this ops)) \<and>
   prefix (listeners this) (listeners (run validate this ops)) \<and>
   prefix (backendDefaults this) (backendDefaults (run validate this ops))"
proof (induction ops arbitrary: this)
  case Nil
  show ?case by simp
next
  case (Cons op ops)
  show ?case
    unfolding run.simps
    using Cons.IH [of "fst (step validate this op)"] step_prefix [of this validate op]
    by (blast intro: prefix_order.trans)
qed

lemma step_keeps_backendDefaults:
  "\<not> isAddBackendDefaults op \<Longrightarrow> backendDefaults (fst (step validate this op)) = backendDefaults this"
  by (cases op) (simp_all add: addBackends_eq addListeners_frame_backendDefaults)

lemma run_keeps_backendDefaults:
  "\<forall>op \<in> set ops. \<not> isAddBackendDefaults op \<Longrightarrow>
     backendDefaults (run validate this ops) = backendDefaults this"
  by (induction ops arbitrary: this) (simp_all add: step_keeps_backendDefaults)

lemma step_backendDefaults_length:
  "length (backendDefaults this) \<le> 1 \<Longrightarrow> length (backendDefaults (fst (step validate this op))) \<le> 1"
  by (cases op) (simp_all add: addBackends_eq addListeners_frame_backendDefaults addBackendDefaults_cases)

lemma run_backendDefaults_length:
  "length (backendDefaults this) \<le> 1 \<Longrightarrow> length (backendDefaults (run validate this ops)) \<le> 1"
proof (induction ops arbitrary: this)
  case Nil
  then show ?case by simp
next
  case (Cons op ops)
  from Cons.prems have "length (backendDefaults (fst (step validate this op))) \<le> 1"
    by (rule step_backendDefaults_length)
  then show ?case unfolding run.simps by (rule Cons.IH)
qed

lemma run_backendDefaults_nonempty:
  "backendDefaults this \<noteq> [] \<Longrightarrow> backendDefaults (run validate this ops) \<noteq> []"
  using run_prefix [of this validate ops] by auto

lemma run_append: "run validate this (ops @ ops') = run validate (run validate this ops) ops'"
  by (induction ops arbitrary: this) simp_all

section \<open>The claims\<close>

subsection \<open>C1: at most one listener\<close>

text \<open>
  C1 (amended). The listeners of a virtual node never number more than one. A call to
  \<^verbatim>\<open>addListeners\<close> throws 'VirtualNode may have at most one listener' whenever the
  listeners already stored and the listeners passed together number more than one, and
  the node stays as it was. Otherwise the call does nothing when no listener is passed,
  and for the one listener passed it is decided by \<^verbatim>\<open>renderHealthCheck\<close> on that listener's
  health check and port mapping (8080 and HTTP when omitted): where that throws, the call
  throws the same error and the node stays as it was; where it returns, the call appends
  exactly one listener record, holding that port mapping and the rendered health check.
  Hence every call keeps the bound, on every node the constructor returns and after any
  sequence of calls.
\<close>

theorem addListeners_at_most_one:
  "(length (listeners this) + length ls > 1 \<longrightarrow>
      addListeners validate this ls = (this, Some AtMostOneListener)) \<and>
   (length (listeners this) + length ls \<le> 1 \<longrightarrow>
      addListeners validate this ls =
        (case ls of
           [] \<Rightarrow> (this, None)
         | l # _ \<Rightarrow>
             (case renderHealthCheck validate (VirtualNodeListener.healthCheck l) (portMappingOf l) of
                Inl e \<Rightarrow> (this, Some e)
              | Inr hc \<Rightarrow>
                  (this\<lparr>listeners := listeners this @
                     [\<lparr>ListenerProperty.portMapping = portMappingOf l, healthCheck = hc\<rparr>]\<rparr>,
                   None)))) \<and>
   (length (listeners this) \<le> 1 \<longrightarrow>
      length (listeners (fst (addListeners validate this ls))) \<le> 1) \<and>
   length (listeners (run validate emptyVirtualNode ops)) \<le> 1 \<and>
   (VirtualNode_new validate props = Inr node \<longrightarrow>
      length (listeners (run validate node ops)) \<le> 1)"
proof -
  have a: "length (listeners this) + length ls > 1 \<longrightarrow>
      addListeners validate this ls = (this, Some AtMostOneListener)"
    by (simp add: addListeners_def)
  have b: "length (listeners this) + length ls \<le> 1 \<longrightarrow>
      addListeners validate this ls =
        (case ls of
           [] \<Rightarrow> (this, None)
         | l # _ \<Rightarrow>
             (case renderHealthCheck validate (VirtualNodeListener.healthCheck l) (portMappingOf l) of
                Inl e \<Rightarrow> (this, Some e)
              | Inr hc \<Rightarrow>
                  (this\<lparr>listeners := listeners this @
                     [\<lparr>ListenerProperty.portMapping = portMappingOf l, healthCheck = hc\<rparr>]\<rparr>,
                   None)))"
    by (simp add: addListeners_cases)
  have c: "length (listeners this) \<le> 1 \<longrightarrow>
      length (listeners (fst (addListeners validate this ls))) \<le> 1"
    using addListeners_length by blast
  have inv: "length (listeners (run validate emptyVirtualNode ops)) \<le> 1" for ops
    by (rule run_listeners_length) (simp add: emptyVirtualNode_def)
  have e: "VirtualNode_new validate props = Inr node \<longrightarrow>
      length (listeners (run validate node ops)) \<le> 1"
  proof
    assume "VirtualNode_new validate props = Inr node"
    then have "node = run validate emptyVirtualNode (constructorOps props)"
      by (rule VirtualNode_new_run)
    then have "run validate node ops = run validate emptyVirtualNode (constructorOps props @ ops)"
      by (simp add: run_append)
    then show "length (listeners (run validate node ops)) \<le> 1" using inv by simp
  qed
  from a b c inv e show ?thesis by blast
qed

text \<open>
  The theorem at work: two listeners at once are refused, one listener is appended to a
  node without listeners, and a node constructed with a listener refuses the next one.
\<close>

theorem addListeners_at_most_one_witness:
  "length (listeners emptyVirtualNode) +
     length [\<lparr>VirtualNodeListener.portMapping = None, healthCheck = None\<rparr>,
             \<lparr>VirtualNodeListener.portMapping = None, healthCheck = None\<rparr>] > 1 \<and>
   addListeners (\<lambda>_. True) emptyVirtualNode
     [\<lparr>VirtualNodeListener.portMapping = None, healthCheck = None\<rparr>,
      \<lparr>VirtualNodeListener.portMapping = None, healthCheck = None\<rparr>]
     = (emptyVirtualNode, Some AtMostOneListener) \<and>
   length (listeners emptyVirtualNode) +
     length [\<lparr>VirtualNodeListener.portMapping = None, healthCheck = None\<rparr>] \<le> 1 \<and>
   addListeners (\<lambda>_. True) emptyVirtualNode
     [\<lparr>VirtualNodeListener.portMapping = None, healthCheck = None\<rparr>]
     = (emptyVirtualNode\<lparr>listeners :=
          [\<lparr>ListenerProperty.portMapping = \<lparr>PortMapping.port = 8080, protocol = HTTP\<rparr>,
            healthCheck = None\<rparr>]\<rparr>, None) \<and>
   VirtualNode_new (\<lambda>_. True)
     \<lparr>VirtualNodeProps.backends = None,
      listener = Some \<lparr>VirtualNodeListener.portMapping = None, healthCheck = None\<rparr>,
      backendDefaults = None\<rparr>
     = Inr (emptyVirtualNode\<lparr>listeners :=
          [\<lparr>ListenerProperty.portMapping = \<lparr>PortMapping.port = 8080, protocol = HTTP\<rparr>,
            healthCheck = None\<rparr>]\<rparr>) \<and>
   length (listeners (run (\<lambda>_. True)
     (emptyVirtualNode\<lparr>listeners :=
          [\<lparr>ListenerProperty.portMapping = \<lparr>PortMapping.port = 8080, protocol = HTTP\<rparr>,
            healthCheck = None\<rparr>]\<rparr>)
     [AddListeners [\<lparr>VirtualNodeListener.portMapping = None, healthCheck = None\<rparr>]])) \<le> 1"
proof -
  have new: "VirtualNode_new (\<lambda>_. True)
     \<lparr>VirtualNodeProps.backends = None,
      listener = Some \<lparr>VirtualNodeListener.portMapping = None, healthCheck = None\<rparr>,
      backendDefaults = None\<rparr>
     = Inr (emptyVirtualNode\<lparr>listeners :=
          [\<lparr>ListenerProperty.portMapping = \<lparr>PortMapping.port = 8080, protocol = HTTP\<rparr>,
            healthCheck = None\<rparr>]\<rparr>)"
    by (simp add: VirtualNode_new_def addBackends_def addListeners_def emptyVirtualNode_def
        renderHealthCheck_def portMappingOf_def)
  have one: "addListeners (\<lambda>_. True) emptyVirtualNode
     [\<lparr>VirtualNodeListener.portMapping = None, healthCheck = None\<rparr>]
     = (emptyVirtualNode\<lparr>listeners :=
          [\<lparr>ListenerProperty.portMapping = \<lparr>PortMapping.port = 8080, protocol = HTTP\<rparr>,
            healthCheck = None\<rparr>]\<rparr>, None)"
    by (simp add: addListeners_def emptyVirtualNode_def renderHealthCheck_def portMappingOf_def)
  have two: "addListeners (\<lambda>_. True) emptyVirtualNode
     [\<lparr>VirtualNodeListener.portMapping = None, healthCheck = None\<rparr>,
      \<lparr>VirtualNodeListener.portMapping = None, healthCheck = None\<rparr>]
     = (emptyVirtualNode, Some AtMostOneListener)"
    using addListeners_at_most_one
        [of emptyVirtualNode
            "[\<lparr>VirtualNodeListener.portMapping = None, healthCheck = None\<rparr>,
              \<lparr>VirtualNodeListener.portMapping = None, healthCheck = None\<rparr>]"
            "\<lambda>_. True"]
    by simp
  have bound: "length (listeners (run (\<lambda>_. True)
     (emptyVirtualNode\<lparr>listeners :=
          [\<lparr>ListenerProperty.portMapping = \<lparr>PortMapping.port = 8080, protocol = HTTP\<rparr>,
            healthCheck = None\<rparr>]\<rparr>)
     [AddListeners [\<lparr>VirtualNodeListener.portMapping = None, healthCheck = None\<rparr>]])) \<le> 1"
    using new addListeners_at_most_one
        [of emptyVirtualNode
            "[\<lparr>VirtualNodeListener.portMapping = None, healthCheck = None\<rparr>]"
            "\<lambda>_. True"
            "[AddListeners [\<lparr>VirtualNodeListener.portMapping = None, healthCheck = None\<rparr>]]"
            "\<lparr>VirtualNodeProps.backends = None,
              listener = Some \<lparr>VirtualNodeListener.portMapping = None, healthCheck = None\<rparr>,
              backendDefaults = None\<rparr>"
            "emptyVirtualNode\<lparr>listeners :=
               [\<lparr>ListenerProperty.portMapping = \<lparr>PortMapping.port = 8080, protocol = HTTP\<rparr>,
                 healthCheck = None\<rparr>]\<rparr>"]
    by blast
  have empty: "listeners emptyVirtualNode = []"
    by (simp add: emptyVirtualNode_def)
  from new one two bound empty show ?thesis by simp
qed

text \<open>
  As first stated the claim has a call within the bound append the listeners passed. It
  need not: on a node without listeners, one listener whose health check sets a path
  with protocol TCP passes the cardinality check, and the call throws and appends
  nothing.
\<close>

theorem addListeners_legal_count_throws_counterexample:
  "\<not> length (listeners emptyVirtualNode) +
       length [\<lparr>VirtualNodeListener.portMapping = None,
                healthCheck = Some (emptyHealthCheck\<lparr>HealthCheck.path := Some ''/ping'',
                                                    HealthCheck.protocol := Some TCP\<rparr>)\<rparr>] > 1 \<and>
   addListeners (\<lambda>_. True) emptyVirtualNode
       [\<lparr>VirtualNodeListener.portMapping = None,
         healthCheck = Some (emptyHealthCheck\<lparr>HealthCheck.path := Some ''/ping'',
                                             HealthCheck.protocol := Some TCP\<rparr>)\<rparr>]
     = (emptyVirtualNode, Some PathWithTCP) \<and>
   listeners emptyVirtualNode = []"
  by (simp add: addListeners_def emptyVirtualNode_def emptyHealthCheck_def renderHealthCheck_def
        portMappingOf_def truthy_string_def)

subsection \<open>C2: path and protocol of a health check\<close>

text \<open>
  C2 (amended). A listener passed to \<^verbatim>\<open>addListeners\<close> whose health check sets a non-empty
  path together with protocol TCP, or together with protocol GRPC, makes the call throw:
  \<^verbatim>\<open>renderHealthCheck\<close> throws the error of the protocol, unless the cardinality check has
  thrown before. For a health check without such a combination \<^verbatim>\<open>renderHealthCheck\<close> builds the record and
  hands it to \<^verbatim>\<open>validateHealthChecks\<close>: it throws where building the record throws, which
  is where the conversion of the interval or of the timeout to milliseconds throws, and
  where \<^verbatim>\<open>validateHealthChecks\<close> rejects the record; otherwise it returns the record
  without error. An omitted health check is rendered as \<^verbatim>\<open>undefined\<close>.
\<close>

theorem path_protocol_legality:
  "(l \<in> set ls \<and> VirtualNodeListener.healthCheck l = Some hc \<and>
      HealthCheck.path hc = Some p \<and> p \<noteq> [] \<and>
      (HealthCheck.protocol hc = Some TCP \<or> HealthCheck.protocol hc = Some GRPC) \<longrightarrow>
      snd (addListeners validate this ls) \<in>
        {Some AtMostOneListener, Some PathWithTCP, Some PathWithGRPC}) \<and>
   (truthy_string (HealthCheck.path hc') \<and> HealthCheck.protocol hc' = Some TCP \<longrightarrow>
      renderHealthCheck validate (Some hc') pm = Inl PathWithTCP) \<and>
   (truthy_string (HealthCheck.path hc') \<and> HealthCheck.protocol hc' = Some GRPC \<longrightarrow>
      renderHealthCheck validate (Some hc') pm = Inl PathWithGRPC) \<and>
   (\<not> (truthy_string (HealthCheck.path hc') \<and>
        (HealthCheck.protocol hc' = Some TCP \<or> HealthCheck.protocol hc' = Some GRPC)) \<longrightarrow>
      renderHealthCheck validate (Some hc') pm =
        (case healthCheckProperty hc' pm of
           Inl e \<Rightarrow> Inl e
         | Inr r \<Rightarrow> if validate r then Inr (Some r) else Inl HealthCheckRejected)) \<and>
   ((\<exists>e. healthCheckProperty hc' pm = Inl e) \<longleftrightarrow>
      toMilliseconds (case interval hc' of None \<Rightarrow> Duration_seconds 5 | Some d \<Rightarrow> d)
        = Inl NotWholeMillis \<or>
      toMilliseconds (case timeout hc' of None \<Rightarrow> Duration_seconds 2 | Some d \<Rightarrow> d)
        = Inl NotWholeMillis) \<and>
   renderHealthCheck validate None pm = Inr None"
proof -
  have a: "snd (addListeners validate this ls) \<in>
        {Some AtMostOneListener, Some PathWithTCP, Some PathWithGRPC}"
    if l: "l \<in> set ls" and hc: "VirtualNodeListener.healthCheck l = Some hc"
      and p: "HealthCheck.path hc = Some p" "p \<noteq> []"
      and pr: "HealthCheck.protocol hc = Some TCP \<or> HealthCheck.protocol hc = Some GRPC"
  proof (cases "length (listeners this) + length ls > 1")
    case True
    then show ?thesis by (simp add: addListeners_def)
  next
    case False
    then have "length ls \<le> 1" by simp
    with l have ls: "ls = [l]" by (cases ls) auto
    from p pr have "renderHealthCheck validate (Some hc) (portMappingOf l) = Inl PathWithTCP \<or>
        renderHealthCheck validate (Some hc) (portMappingOf l) = Inl PathWithGRPC"
      by (auto simp: renderHealthCheck_Some truthy_string_def)
    with False ls hc show ?thesis by (auto simp: addListeners_cases)
  qed
  have b: "renderHealthCheck validate (Some hc') pm =
        (case healthCheckProperty hc' pm of
           Inl e \<Rightarrow> Inl e
         | Inr r \<Rightarrow> if validate r then Inr (Some r) else Inl HealthCheckRejected)"
    if "\<not> (truthy_string (HealthCheck.path hc') \<and>
        (HealthCheck.protocol hc' = Some TCP \<or> HealthCheck.protocol hc' = Some GRPC))"
    using that by (auto simp: renderHealthCheck_Some)
  have t: "renderHealthCheck validate (Some hc') pm = Inl PathWithTCP"
    if "truthy_string (HealthCheck.path hc')" "HealthCheck.protocol hc' = Some TCP"
    using that by (simp add: renderHealthCheck_Some)
  have g: "renderHealthCheck validate (Some hc') pm = Inl PathWithGRPC"
    if "truthy_string (HealthCheck.path hc')" "HealthCheck.protocol hc' = Some GRPC"
    using that by (simp add: renderHealthCheck_Some)
  have c: "((\<exists>e. healthCheckProperty hc' pm = Inl e) \<longleftrightarrow>
      toMilliseconds (case interval hc' of None \<Rightarrow> Duration_seconds 5 | Some d \<Rightarrow> d)
        = Inl NotWholeMillis \<or>
      toMilliseconds (case timeout hc' of None \<Rightarrow> Duration_seconds 2 | Some d \<Rightarrow> d)
        = Inl NotWholeMillis)"
    by (rule healthCheckProperty_throws_iff)
  have d: "renderHealthCheck validate None pm = Inr None"
    by (rule renderHealthCheck_None)
  from a t g b c d show ?thesis by blast
qed

text \<open>
  The theorem at work: a path with TCP is refused; a path alone is rendered, here with
  \<^verbatim>\<open>validateHealthChecks\<close> the check of the bounds of the numeric fields (thresholds 2 to 10,
  interval 5000 to 300000, port 1 to 65535, timeout 2000 to 60000).
\<close>

theorem path_protocol_legality_witness:
  "\<lparr>VirtualNodeListener.portMapping = None,
     healthCheck = Some (emptyHealthCheck\<lparr>HealthCheck.path := Some ''/ping'',
                                         HealthCheck.protocol := Some TCP\<rparr>)\<rparr>
     \<in> set [\<lparr>VirtualNodeListener.portMapping = None,
              healthCheck = Some (emptyHealthCheck\<lparr>HealthCheck.path := Some ''/ping'',
                                         HealthCheck.protocol := Some TCP\<rparr>)\<rparr>] \<and>
   HealthCheck.path (emptyHealthCheck\<lparr>HealthCheck.path := Some ''/ping'',
                                         HealthCheck.protocol := Some TCP\<rparr>) = Some ''/ping'' \<and>
   ''/ping'' \<noteq> [] \<and>
   HealthCheck.protocol (emptyHealthCheck\<lparr>HealthCheck.path := Some ''/ping'',
                                         HealthCheck.protocol := Some TCP\<rparr>) = Some TCP \<and>
   snd (addListeners
     (\<lambda>r. 2 \<le> HealthCheckProperty.healthyThreshold r \<and>
            HealthCheckProperty.healthyThreshold r \<le> 10 \<and>
            5000 \<le> intervalMillis r \<and> intervalMillis r \<le> 300000 \<and>
            1 \<le> HealthCheckProperty.port r \<and> HealthCheckProperty.port r \<le> 65535 \<and>
            2000 \<le> timeoutMillis r \<and> timeoutMillis r \<le> 60000 \<and>
            2 \<le> HealthCheckProperty.unhealthyThreshold r \<and>
            HealthCheckProperty.unhealthyThreshold r \<le> 10)
     emptyVirtualNode
     [\<lparr>VirtualNodeListener.portMapping = None,
       healthCheck = Some (emptyHealthCheck\<lparr>HealthCheck.path := Some ''/ping'',
                                         HealthCheck.protocol := Some TCP\<rparr>)\<rparr>])
     \<in> {Some AtMostOneListener, Some PathWithTCP, Some PathWithGRPC} \<and>
   HealthCheck.protocol (emptyHealthCheck\<lparr>HealthCheck.path := Some ''/health''\<rparr>) = None \<and>
   renderHealthCheck
       (\<lambda>r. 2 \<le> HealthCheckProperty.healthyThreshold r \<and>
            HealthCheckProperty.healthyThreshold r \<le> 10 \<and>
            5000 \<le> intervalMillis r \<and> intervalMillis r \<le> 300000 \<and>
            1 \<le> HealthCheckProperty.port r \<and> HealthCheckProperty.port r \<le> 65535 \<and>
            2000 \<le> timeoutMillis r \<and> timeoutMillis r \<le> 60000 \<and>
            2 \<le> HealthCheckProperty.unhealthyThreshold r \<and>
            HealthCheckProperty.unhealthyThreshold r \<le> 10)
       (Some (emptyHealthCheck\<lparr>HealthCheck.path := Some ''/health''\<rparr>))
       \<lparr>PortMapping.port = 8080, protocol = HTTP\<rparr>
     = Inr (Some \<lparr>HealthCheckProperty.healthyThreshold = 2, intervalMillis = 5000,
                  path = Some ''/health'', port = 8080, protocol = HTTP, timeoutMillis = 2000,
                  unhealthyThreshold = 2\<rparr>)"
proof -
  have fields:
    "HealthCheck.path (emptyHealthCheck\<lparr>HealthCheck.path := Some ''/ping'',
                                         HealthCheck.protocol := Some TCP\<rparr>) = Some ''/ping''"
    "HealthCheck.protocol (emptyHealthCheck\<lparr>HealthCheck.path := Some ''/ping'',
                                         HealthCheck.protocol := Some TCP\<rparr>) = Some TCP"
    "HealthCheck.protocol (emptyHealthCheck\<lparr>HealthCheck.path := Some ''/health''\<rparr>) = None"
    by (simp_all add: emptyHealthCheck_def)
  have literal: "healthCheckProperty (emptyHealthCheck\<lparr>HealthCheck.path := Some ''/health''\<rparr>)
       \<lparr>PortMapping.port = 8080, protocol = HTTP\<rparr>
     = Inr \<lparr>HealthCheckProperty.healthyThreshold = 2, intervalMillis = 5000,
                  path = Some ''/health'', port = 8080, protocol = HTTP, timeoutMillis = 2000,
                  unhealthyThreshold = 2\<rparr>"
    by (simp add: healthCheckProperty_def emptyHealthCheck_def or_number_def truthy_string_def
        toMilliseconds_defaults)
  have refused: "snd (addListeners
     (\<lambda>r. 2 \<le> HealthCheckProperty.healthyThreshold r \<and>
            HealthCheckProperty.healthyThreshold r \<le> 10 \<and>
            5000 \<le> intervalMillis r \<and> intervalMillis r \<le> 300000 \<and>
            1 \<le> HealthCheckProperty.port r \<and> HealthCheckProperty.port r \<le> 65535 \<and>
            2000 \<le> timeoutMillis r \<and> timeoutMillis r \<le> 60000 \<and>
            2 \<le> HealthCheckProperty.unhealthyThreshold r \<and>
            HealthCheckProperty.unhealthyThreshold r \<le> 10)
     emptyVirtualNode
     [\<lparr>VirtualNodeListener.portMapping = None,
       healthCheck = Some (emptyHealthCheck\<lparr>HealthCheck.path := Some ''/ping'',
                                         HealthCheck.protocol := Some TCP\<rparr>)\<rparr>])
     \<in> {Some AtMostOneListener, Some PathWithTCP, Some PathWithGRPC}"
    using fields path_protocol_legality
      [of "\<lparr>VirtualNodeListener.portMapping = None,
             healthCheck = Some (emptyHealthCheck\<lparr>HealthCheck.path := Some ''/ping'',
                                         HealthCheck.protocol := Some TCP\<rparr>)\<rparr>"
          "[\<lparr>VirtualNodeListener.portMapping = None,
             healthCheck = Some (emptyHealthCheck\<lparr>HealthCheck.path := Some ''/ping'',
                                         HealthCheck.protocol := Some TCP\<rparr>)\<rparr>]"
          "emptyHealthCheck\<lparr>HealthCheck.path := Some ''/ping'',
                                         HealthCheck.protocol := Some TCP\<rparr>"
          "''/ping''"
          "(\<lambda>r. 2 \<le> HealthCheckProperty.healthyThreshold r \<and>
            HealthCheckProperty.healthyThreshold r \<le> 10 \<and>
            5000 \<le> intervalMillis r \<and> intervalMillis r \<le> 300000 \<and>
            1 \<le> HealthCheckProperty.port r \<and> HealthCheckProperty.port r \<le> 65535 \<and>
            2000 \<le> timeoutMillis r \<and> timeoutMillis r \<le> 60000 \<and>
            2 \<le> HealthCheckProperty.unhealthyThreshold r \<and>
            HealthCheckProperty.unhealthyThreshold r \<le> 10)"
          emptyVirtualNode]
    by simp
  have rendered: "renderHealthCheck
       (\<lambda>r. 2 \<le> HealthCheckProperty.healthyThreshold r \<and>
            HealthCheckProperty.healthyThreshold r \<le> 10 \<and>
            5000 \<le> intervalMillis r \<and> intervalMillis r \<le> 300000 \<and>
            1 \<le> HealthCheckProperty.port r \<and> HealthCheckProperty.port r \<le> 65535 \<and>
            2000 \<le> timeoutMillis r \<and> timeoutMillis r \<le> 60000 \<and>
            2 \<le> HealthCheckProperty.unhealthyThreshold r \<and>
            HealthCheckProperty.unhealthyThreshold r \<le> 10)
       (Some (emptyHealthCheck\<lparr>HealthCheck.path := Some ''/health''\<rparr>))
       \<lparr>PortMapping.port = 8080, protocol = HTTP\<rparr>
     = Inr (Some \<lparr>HealthCheckProperty.healthyThreshold = 2, intervalMillis = 5000,
                  path = Some ''/health'', port = 8080, protocol = HTTP, timeoutMillis = 2000,
                  unhealthyThreshold = 2\<rparr>)"
    using fields literal path_protocol_legality
      [of "\<lparr>VirtualNodeListener.portMapping = None, healthCheck = None\<rparr>" "[]"
          emptyHealthCheck "[]"
          "(\<lambda>r. 2 \<le> HealthCheckProperty.healthyThreshold r \<and>
            HealthCheckProperty.healthyThreshold r \<le> 10 \<and>
            5000 \<le> intervalMillis r \<and> intervalMillis r \<le> 300000 \<and>
            1 \<le> HealthCheckProperty.port r \<and> HealthCheckProperty.port r \<le> 65535 \<and>
            2000 \<le> timeoutMillis r \<and> timeoutMillis r \<le> 60000 \<and>
            2 \<le> HealthCheckProperty.unhealthyThreshold r \<and>
            HealthCheckProperty.unhealthyThreshold r \<le> 10)"
          emptyVirtualNode
          "emptyHealthCheck\<lparr>HealthCheck.path := Some ''/health''\<rparr>"
          "\<lparr>PortMapping.port = 8080, protocol = HTTP\<rparr>"]
    by simp
  from fields refused rendered show ?thesis by simp
qed

text \<open>
  As first stated the claim has every health check that sets the path with protocol TCP
  refused, and every other health check rendered without error. Three calls on a node
  without listeners, with \<^verbatim>\<open>validateHealthChecks\<close> the check of the bounds named above, show
  otherwise. The legality check reads the path by its truth value, so the empty path with
  TCP is let through, and is rendered as no path. A health check with no path and a
  timeout such as \<^verbatim>\<open>Duration.seconds(2.0005)\<close> is not rendered: the conversion to milliseconds
  throws. A health check with no path and a healthy threshold of 1 is not rendered:
  \<^verbatim>\<open>validateHealthChecks\<close> rejects the record.
\<close>

theorem empty_path_with_TCP_counterexample:
  "addListeners
       (\<lambda>r. 2 \<le> HealthCheckProperty.healthyThreshold r \<and>
            HealthCheckProperty.healthyThreshold r \<le> 10 \<and>
            5000 \<le> intervalMillis r \<and> intervalMillis r \<le> 300000 \<and>
            1 \<le> HealthCheckProperty.port r \<and> HealthCheckProperty.port r \<le> 65535 \<and>
            2000 \<le> timeoutMillis r \<and> timeoutMillis r \<le> 60000 \<and>
            2 \<le> HealthCheckProperty.unhealthyThreshold r \<and>
            HealthCheckProperty.unhealthyThreshold r \<le> 10)
       emptyVirtualNode
       [\<lparr>VirtualNodeListener.portMapping = None,
         healthCheck = Some (emptyHealthCheck\<lparr>HealthCheck.path := Some '''',
                                             HealthCheck.protocol := Some TCP\<rparr>)\<rparr>]
     = (emptyVirtualNode\<lparr>listeners :=
          [\<lparr>ListenerProperty.portMapping = \<lparr>PortMapping.port = 8080, protocol = HTTP\<rparr>,
            healthCheck = Some
              \<lparr>HealthCheckProperty.healthyThreshold = 2, intervalMillis = 5000, path = None,
               port = 8080, protocol = TCP, timeoutMillis = 2000, unhealthyThreshold = 2\<rparr>\<rparr>]\<rparr>,
        None) \<and>
   renderHealthCheck
       (\<lambda>r. 2 \<le> HealthCheckProperty.healthyThreshold r \<and>
            HealthCheckProperty.healthyThreshold r \<le> 10 \<and>
            5000 \<le> intervalMillis r \<and> intervalMillis r \<le> 300000 \<and>
            1 \<le> HealthCheckProperty.port r \<and> HealthCheckProperty.port r \<le> 65535 \<and>
            2000 \<le> timeoutMillis r \<and> timeoutMillis r \<le> 60000 \<and>
            2 \<le> HealthCheckProperty.unhealthyThreshold r \<and>
            HealthCheckProperty.unhealthyThreshold r \<le> 10)
       (Some (emptyHealthCheck\<lparr>timeout := Some ConversionThrows\<rparr>))
       \<lparr>PortMapping.port = 8080, protocol = HTTP\<rparr>
     = Inl NotWholeMillis \<and>
   renderHealthCheck
       (\<lambda>r. 2 \<le> HealthCheckProperty.healthyThreshold r \<and>
            HealthCheckProperty.healthyThreshold r \<le> 10 \<and>
            5000 \<le> intervalMillis r \<and> intervalMillis r \<le> 300000 \<and>
            1 \<le> HealthCheckProperty.port r \<and> HealthCheckProperty.port r \<le> 65535 \<and>
            2000 \<le> timeoutMillis r \<and> timeoutMillis r \<le> 60000 \<and>
            2 \<le> HealthCheckProperty.unhealthyThreshold r \<and>
            HealthCheckProperty.unhealthyThreshold r \<le> 10)
       (Some (emptyHealthCheck\<lparr>HealthCheck.healthyThreshold := Some 1\<rparr>))
       \<lparr>PortMapping.port = 8080, protocol = HTTP\<rparr>
     = Inl HealthCheckRejected"
  by (simp add: addListeners_def emptyVirtualNode_def emptyHealthCheck_def renderHealthCheck_def
        portMappingOf_def truthy_string_def healthCheckProperty_def or_number_def
        toMilliseconds_defaults)

subsection \<open>C3: one backend default\<close>

text \<open>
  C3. On every virtual node the first call to \<^verbatim>\<open>addBackendDefaults\<close>, whatever other calls
  came before it, appends exactly one backend-defaults record. Every call after a call to
  \<^verbatim>\<open>addBackendDefaults\<close>, whatever calls lie between, throws 'Virtual Node can have only
  one backend default' and leaves the node as it was. So the list of backend defaults
  never holds more than one element, on the empty node and on every node the constructor
  returns.
\<close>

theorem addBackendDefaults_only_once:
  "((\<forall>op \<in> set ops. \<not> isAddBackendDefaults op) \<longrightarrow>
      addBackendDefaults (run validate emptyVirtualNode ops) bd =
        ((run validate emptyVirtualNode ops)
           \<lparr>backendDefaults := [backendDefaultsProperty (run validate emptyVirtualNode ops) bd]\<rparr>, None)) \<and>
   addBackendDefaults (run validate (fst (addBackendDefaults this bd)) ops') bd' =
     (run validate (fst (addBackendDefaults this bd)) ops', Some OnlyOneBackendDefault) \<and>
   (backendDefaults this \<noteq> [] \<longrightarrow> addBackendDefaults this bd = (this, Some OnlyOneBackendDefault)) \<and>
   length (backendDefaults (run validate emptyVirtualNode ops'')) \<le> 1 \<and>
   (VirtualNode_new validate props = Inr this \<longrightarrow>
      length (backendDefaults (run validate this ops'')) \<le> 1)"
proof -
  have first: "(\<forall>op \<in> set ops. \<not> isAddBackendDefaults op) \<longrightarrow>
      addBackendDefaults (run validate emptyVirtualNode ops) bd =
        ((run validate emptyVirtualNode ops)
           \<lparr>backendDefaults := [backendDefaultsProperty (run validate emptyVirtualNode ops) bd]\<rparr>, None)"
  proof
    assume "\<forall>op \<in> set ops. \<not> isAddBackendDefaults op"
    then have "backendDefaults (run validate emptyVirtualNode ops) = []"
      by (simp add: run_keeps_backendDefaults emptyVirtualNode_def)
    then show "addBackendDefaults (run validate emptyVirtualNode ops) bd =
        ((run validate emptyVirtualNode ops)
           \<lparr>backendDefaults := [backendDefaultsProperty (run validate emptyVirtualNode ops) bd]\<rparr>, None)"
      by (simp add: addBackendDefaults_cases)
  qed
  have "backendDefaults (fst (addBackendDefaults this bd)) \<noteq> []"
    by (simp add: addBackendDefaults_cases)
  then have "backendDefaults (run validate (fst (addBackendDefaults this bd)) ops') \<noteq> []"
    by (rule run_backendDefaults_nonempty)
  then have later: "addBackendDefaults (run validate (fst (addBackendDefaults this bd)) ops') bd' =
     (run validate (fst (addBackendDefaults this bd)) ops', Some OnlyOneBackendDefault)"
    by (simp add: addBackendDefaults_cases)
  have inv: "length (backendDefaults (run validate emptyVirtualNode ops)) \<le> 1" for ops
    by (rule run_backendDefaults_length) (simp add: emptyVirtualNode_def)
  have "length (backendDefaults (run validate this ops'')) \<le> 1"
    if "VirtualNode_new validate props = Inr this"
  proof -
    from that have "this = run validate emptyVirtualNode (constructorOps props)"
      by (rule VirtualNode_new_run)
    then have "run validate this ops'' = run validate emptyVirtualNode (constructorOps props @ ops'')"
      by (simp add: run_append)
    then show ?thesis using inv by simp
  qed
  with first later inv show ?thesis by (simp add: addBackendDefaults_cases)
qed

text \<open>
  The theorem at work: the first call after an \<^verbatim>\<open>addBackends\<close> appends the record, and a
  node constructed with backend defaults keeps the single record when asked again.
\<close>

theorem addBackendDefaults_only_once_witness:
  "\<not> isAddBackendDefaults (AddBackends [\<lparr>IVirtualService.virtualServiceName = ''svc''\<rparr>]) \<and>
   fst (addBackendDefaults
     (run (\<lambda>_. True) emptyVirtualNode
        [AddBackends [\<lparr>IVirtualService.virtualServiceName = ''svc''\<rparr>]])
     \<lparr>tlsClientPolicy = \<lparr>TLSClientPolicyOptions.enforce = None, ports = None,
                          validation = FileTrust ''/certs/ca.pem''\<rparr>\<rparr>)
     = \<lparr>VirtualNodeBase.backends =
          [\<lparr>virtualService = \<lparr>VirtualServiceBackendProperty.virtualServiceName = ''svc''\<rparr>\<rparr>],
        listeners = [],
        VirtualNode.backendDefaults =
          [\<lparr>BackendDefaultsProperty.clientPolicy = \<lparr>ClientPolicyProperty.tls =
              \<lparr>ClientPolicyTlsProperty.enforce = True,
               validation = \<lparr>TlsValidationContextProperty.trust =
                  \<lparr>acm = None,
                   file = Some \<lparr>TlsValidationContextFileTrustProperty.certificateChain =
                                 ''/certs/ca.pem''\<rparr>\<rparr>\<rparr>,
               ports = None\<rparr>\<rparr>\<rparr>]\<rparr> \<and>
   VirtualNode_new (\<lambda>_. True)
       \<lparr>VirtualNodeProps.backends = None, listener = None,
        backendDefaults = Some \<lparr>tlsClientPolicy =
          \<lparr>TLSClientPolicyOptions.enforce = None, ports = None,
           validation = FileTrust ''/certs/ca.pem''\<rparr>\<rparr>\<rparr>
     = Inr \<lparr>VirtualNodeBase.backends = [], listeners = [],
          VirtualNode.backendDefaults =
            [\<lparr>BackendDefaultsProperty.clientPolicy = \<lparr>ClientPolicyProperty.tls =
               \<lparr>ClientPolicyTlsProperty.enforce = True,
                validation = \<lparr>TlsValidationContextProperty.trust =
                   \<lparr>acm = None,
                    file = Some \<lparr>TlsValidationContextFileTrustProperty.certificateChain =
                                  ''/certs/ca.pem''\<rparr>\<rparr>\<rparr>,
                ports = None\<rparr>\<rparr>\<rparr>]\<rparr> \<and>
   length (VirtualNode.backendDefaults (run (\<lambda>_. True)
        \<lparr>VirtualNodeBase.backends = [], listeners = [],
          VirtualNode.backendDefaults =
            [\<lparr>BackendDefaultsProperty.clientPolicy = \<lparr>ClientPolicyProperty.tls =
               \<lparr>ClientPolicyTlsProperty.enforce = True,
                validation = \<lparr>TlsValidationContextProperty.trust =
                   \<lparr>acm = None,
                    file = Some \<lparr>TlsValidationContextFileTrustProperty.certificateChain =
                                  ''/certs/ca.pem''\<rparr>\<rparr>\<rparr>,
                ports = None\<rparr>\<rparr>\<rparr>]\<rparr>
        [AddBackendDefaults \<lparr>tlsClientPolicy =
          \<lparr>TLSClientPolicyOptions.enforce = Some False, ports = None,
           validation = ACMTrust [''arn:ca'']\<rparr>\<rparr>])) \<le> 1"
proof -
  have run1: "run (\<lambda>_. True) emptyVirtualNode
        [AddBackends [\<lparr>IVirtualService.virtualServiceName = ''svc''\<rparr>]]
     = \<lparr>VirtualNodeBase.backends =
          [\<lparr>virtualService = \<lparr>VirtualServiceBackendProperty.virtualServiceName = ''svc''\<rparr>\<rparr>],
        listeners = [], VirtualNode.backendDefaults = []\<rparr>"
    by (simp add: addBackends_def emptyVirtualNode_def)
  have first: "fst (addBackendDefaults
     (run (\<lambda>_. True) emptyVirtualNode
        [AddBackends [\<lparr>IVirtualService.virtualServiceName = ''svc''\<rparr>]])
     \<lparr>tlsClientPolicy = \<lparr>TLSClientPolicyOptions.enforce = None, ports = None,
                          validation = FileTrust ''/certs/ca.pem''\<rparr>\<rparr>)
     = (run (\<lambda>_. True) emptyVirtualNode
          [AddBackends [\<lparr>IVirtualService.virtualServiceName = ''svc''\<rparr>]])
        \<lparr>VirtualNode.backendDefaults :=
           [backendDefaultsProperty
              (run (\<lambda>_. True) emptyVirtualNode
                 [AddBackends [\<lparr>IVirtualService.virtualServiceName = ''svc''\<rparr>]])
              \<lparr>tlsClientPolicy = \<lparr>TLSClientPolicyOptions.enforce = None, ports = None,
                                   validation = FileTrust ''/certs/ca.pem''\<rparr>\<rparr>]\<rparr>"
    using addBackendDefaults_only_once
      [of "[AddBackends [\<lparr>IVirtualService.virtualServiceName = ''svc''\<rparr>]]" "\<lambda>_. True"
          "\<lparr>tlsClientPolicy = \<lparr>TLSClientPolicyOptions.enforce = None, ports = None,
                               validation = FileTrust ''/certs/ca.pem''\<rparr>\<rparr>"]
    by simp
  have new: "VirtualNode_new (\<lambda>_. True)
       \<lparr>VirtualNodeProps.backends = None, listener = None,
        backendDefaults = Some \<lparr>tlsClientPolicy =
          \<lparr>TLSClientPolicyOptions.enforce = None, ports = None,
           validation = FileTrust ''/certs/ca.pem''\<rparr>\<rparr>\<rparr>
     = Inr \<lparr>VirtualNodeBase.backends = [], listeners = [],
          VirtualNode.backendDefaults =
            [\<lparr>BackendDefaultsProperty.clientPolicy = \<lparr>ClientPolicyProperty.tls =
               \<lparr>ClientPolicyTlsProperty.enforce = True,
                validation = \<lparr>TlsValidationContextProperty.trust =
                   \<lparr>acm = None,
                    file = Some \<lparr>TlsValidationContextFileTrustProperty.certificateChain =
                                  ''/certs/ca.pem''\<rparr>\<rparr>\<rparr>,
                ports = None\<rparr>\<rparr>\<rparr>]\<rparr>"
    by (simp add: VirtualNode_new_def addBackends_def addListeners_def addBackendDefaults_def
        emptyVirtualNode_def backendDefaultsProperty_def)
  have bound: "length (VirtualNode.backendDefaults (run (\<lambda>_. True)
        \<lparr>VirtualNodeBase.backends = [], listeners = [],
          VirtualNode.backendDefaults =
            [\<lparr>BackendDefaultsProperty.clientPolicy = \<lparr>ClientPolicyProperty.tls =
               \<lparr>ClientPolicyTlsProperty.enforce = True,
                validation = \<lparr>TlsValidationContextProperty.trust =
                   \<lparr>acm = None,
                    file = Some \<lparr>TlsValidationContextFileTrustProperty.certificateChain =
                                  ''/certs/ca.pem''\<rparr>\<rparr>\<rparr>,
                ports = None\<rparr>\<rparr>\<rparr>]\<rparr>
        [AddBackendDefaults \<lparr>tlsClientPolicy =
          \<lparr>TLSClientPolicyOptions.enforce = Some False, ports = None,
           validation = ACMTrust [''arn:ca'']\<rparr>\<rparr>])) \<le> 1"
    using new addBackendDefaults_only_once
      [of "[]" "\<lambda>_. True" _
          "\<lparr>VirtualNodeBase.backends = [], listeners = [],
          VirtualNode.backendDefaults =
            [\<lparr>BackendDefaultsProperty.clientPolicy = \<lparr>ClientPolicyProperty.tls =
               \<lparr>ClientPolicyTlsProperty.enforce = True,
                validation = \<lparr>TlsValidationContextProperty.trust =
                   \<lparr>acm = None,
                    file = Some \<lparr>TlsValidationContextFileTrustProperty.certificateChain =
                                  ''/certs/ca.pem''\<rparr>\<rparr>\<rparr>,
                ports = None\<rparr>\<rparr>\<rparr>]\<rparr>"
          "[]" _
          "[AddBackendDefaults \<lparr>tlsClientPolicy =
              \<lparr>TLSClientPolicyOptions.enforce = Some False, ports = None,
               validation = ACMTrust [''arn:ca'']\<rparr>\<rparr>]"
          "\<lparr>VirtualNodeProps.backends = None, listener = None,
            backendDefaults = Some \<lparr>tlsClientPolicy =
              \<lparr>TLSClientPolicyOptions.enforce = None, ports = None,
               validation = FileTrust ''/certs/ca.pem''\<rparr>\<rparr>\<rparr>"]
    by blast
  have "fst (addBackendDefaults
     (run (\<lambda>_. True) emptyVirtualNode
        [AddBackends [\<lparr>IVirtualService.virtualServiceName = ''svc''\<rparr>]])
     \<lparr>tlsClientPolicy = \<lparr>TLSClientPolicyOptions.enforce = None, ports = None,
                          validation = FileTrust ''/certs/ca.pem''\<rparr>\<rparr>)
     = \<lparr>VirtualNodeBase.backends =
          [\<lparr>virtualService = \<lparr>VirtualServiceBackendProperty.virtualServiceName = ''svc''\<rparr>\<rparr>],
        listeners = [],
        VirtualNode.backendDefaults =
          [\<lparr>BackendDefaultsProperty.clientPolicy = \<lparr>ClientPolicyProperty.tls =
              \<lparr>ClientPolicyTlsProperty.enforce = True,
               validation = \<lparr>TlsValidationContextProperty.trust =
                  \<lparr>acm = None,
                   file = Some \<lparr>TlsValidationContextFileTrustProperty.certificateChain =
                                 ''/certs/ca.pem''\<rparr>\<rparr>\<rparr>,
               ports = None\<rparr>\<rparr>\<rparr>]\<rparr>"
    unfolding first unfolding run1 by (simp add: backendDefaultsProperty_def)
  with new bound show ?thesis by simp
qed

subsection \<open>C4: the two trust variants\<close>

text \<open>
  C4. The two static factories of \<^verbatim>\<open>TLSClientValidation\<close> give the two trust variants:
  binding \<^verbatim>\<open>fileTrust(p)\<close> returns a validation whose trust has the \<^verbatim>\<open>file\<close> member with
  \<^verbatim>\<open>p.certificateChain\<close> and no \<^verbatim>\<open>acm\<close> member; binding \<^verbatim>\<open>acmTrust(q)\<close> returns one whose
  trust has the \<^verbatim>\<open>acm\<close> member with \<^verbatim>\<open>q.certificateAuthorityArns\<close> and no \<^verbatim>\<open>file\<close> member,
  whatever the scope.
\<close>

theorem trust_factories_bind:
  "TLSClientValidation_bind (TLSClientValidation_fileTrust p) scope =
     \<lparr>tlsValidation = \<lparr>TlsValidationContextProperty.trust =
        \<lparr>acm = None,
         file = Some \<lparr>TlsValidationContextFileTrustProperty.certificateChain =
                       FileTrustOptions.certificateChain p\<rparr>\<rparr>\<rparr>\<rparr> \<and>
   TLSClientValidation_bind (TLSClientValidation_acmTrust q) scope =
     \<lparr>tlsValidation = \<lparr>TlsValidationContextProperty.trust =
        \<lparr>acm = Some \<lparr>TlsValidationContextAcmTrustProperty.certificateAuthorityArns =
                       ACMTrustOptions.certificateAuthorityArns q\<rparr>,
         file = None\<rparr>\<rparr>\<rparr>"
  by (simp add: TLSClientValidation_fileTrust_def TLSClientValidation_acmTrust_def)

subsection \<open>C5: backends\<close>

text \<open>
  C5. \<^verbatim>\<open>addBackends\<close> never throws and appends one backend record per virtual service
  passed, in the order of the arguments, each with the service's \<^verbatim>\<open>virtualServiceName\<close>
  unchanged; the listeners are not touched.
\<close>

theorem addBackends_appends_in_order:
  "snd (addBackends this props) = None \<and>
   backends (fst (addBackends this props)) =
     backends this @
       map (\<lambda>s. \<lparr>virtualService =
                  \<lparr>VirtualServiceBackendProperty.virtualServiceName =
                     IVirtualService.virtualServiceName s\<rparr>\<rparr>) props \<and>
   length (backends (fst (addBackends this props))) = length (backends this) + length props \<and>
   listeners (fst (addBackends this props)) = listeners this"
  by (simp add: addBackends_eq)

subsection \<open>C6: a failed \<^verbatim>\<open>addListeners\<close> changes nothing\<close>

text \<open>
  C6. When \<^verbatim>\<open>addListeners\<close> throws, for the cardinality check or for whatever makes
  \<^verbatim>\<open>renderHealthCheck\<close> throw (a path with TCP or GRPC, a duration whose conversion to
  milliseconds throws, a record \<^verbatim>\<open>validateHealthChecks\<close> rejects), the node is as it was
  before the call: nothing was appended to the listeners.
\<close>

theorem addListeners_atomic_on_error:
  "addListeners validate this ls = (this', Some e) \<Longrightarrow>
     this' = this \<and> listeners this' = listeners this"
  by (auto simp: addListeners_cases split: if_splits list.splits sum.splits)

text \<open>
  The theorem at work, on a node without listeners: a path with TCP, and a timeout
  whose conversion throws, such as \<^verbatim>\<open>Duration.seconds(2.0005)\<close>.
\<close>

theorem addListeners_atomic_on_error_witness:
  "addListeners (\<lambda>_. True) emptyVirtualNode
       [\<lparr>VirtualNodeListener.portMapping = None,
         healthCheck = Some (emptyHealthCheck\<lparr>HealthCheck.path := Some ''/ping'',
                                             HealthCheck.protocol := Some TCP\<rparr>)\<rparr>]
     = (emptyVirtualNode, Some PathWithTCP) \<and>
   addListeners (\<lambda>_. True) emptyVirtualNode
       [\<lparr>VirtualNodeListener.portMapping = None,
         healthCheck = Some (emptyHealthCheck
           \<lparr>timeout := Some ConversionThrows\<rparr>)\<rparr>]
     = (emptyVirtualNode, Some NotWholeMillis) \<and>
   listeners emptyVirtualNode = []"
proof -
  have h1: "addListeners (\<lambda>_. True) emptyVirtualNode
       [\<lparr>VirtualNodeListener.portMapping = None,
         healthCheck = Some (emptyHealthCheck\<lparr>HealthCheck.path := Some ''/ping'',
                                             HealthCheck.protocol := Some TCP\<rparr>)\<rparr>]
     = (emptyVirtualNode, Some PathWithTCP)"
    by (simp add: addListeners_def emptyVirtualNode_def emptyHealthCheck_def renderHealthCheck_def
        portMappingOf_def truthy_string_def healthCheckProperty_def or_number_def
        toMilliseconds_defaults)
  have h2: "addListeners (\<lambda>_. True) emptyVirtualNode
       [\<lparr>VirtualNodeListener.portMapping = None,
         healthCheck = Some (emptyHealthCheck
           \<lparr>timeout := Some ConversionThrows\<rparr>)\<rparr>]
     = (emptyVirtualNode, Some NotWholeMillis)"
    by (simp add: addListeners_def emptyVirtualNode_def emptyHealthCheck_def renderHealthCheck_def
        portMappingOf_def truthy_string_def healthCheckProperty_def or_number_def
        toMilliseconds_defaults)
  have empty: "listeners emptyVirtualNode = []"
    by (simp add: emptyVirtualNode_def)
  from h1 h2 empty addListeners_atomic_on_error [OF h1] addListeners_atomic_on_error [OF h2]
  show ?thesis by simp
qed

subsection \<open>C7: the mutators only append\<close>

text \<open>
  C7. The three mutators only append. After any sequence of calls, failed ones included,
  each of the three lists still begins with the elements it held before, unchanged and
  in their order. A single call adds elements at the end of its own list only and leaves
  the other two lists as they were.
\<close>

theorem mutators_append_only:
  "prefix (backends this) (backends (run validate this ops)) \<and>
   prefix (listeners this) (listeners (run validate this ops)) \<and>
   prefix (backendDefaults this) (backendDefaults (run validate this ops)) \<and>
   (\<exists>new. backends (fst (addBackends this props)) = backends this @ new) \<and>
   listeners (fst (addBackends this props)) = listeners this \<and>
   backendDefaults (fst (addBackends this props)) = backendDefaults this \<and>
   (\<exists>new. listeners (fst (addListeners validate this ls)) = listeners this @ new) \<and>
   backends (fst (addListeners validate this ls)) = backends this \<and>
   backendDefaults (fst (addListeners validate this ls)) = backendDefaults this \<and>
   (\<exists>new. backendDefaults (fst (addBackendDefaults this bd)) = backendDefaults this @ new) \<and>
   backends (fst (addBackendDefaults this bd)) = backends this \<and>
   listeners (fst (addBackendDefaults this bd)) = listeners this"
proof -
  have "\<exists>new. listeners (fst (addListeners validate this ls)) = listeners this @ new"
    by (auto simp: addListeners_cases split: if_splits list.splits sum.splits)
  moreover have "\<exists>new. backendDefaults (fst (addBackendDefaults this bd)) = backendDefaults this @ new"
    by (simp add: addBackendDefaults_cases)
  ultimately show ?thesis
    using run_prefix [of this validate ops]
    by (simp add: addBackends_eq addListeners_frame addListeners_frame_backendDefaults
        addBackendDefaults_cases)
qed

subsection \<open>C8: the defaults of a listener\<close>

text \<open>
  C8. A listener that \<^verbatim>\<open>addListeners\<close> accepts is appended with its omitted fields filled
  in. A missing port mapping becomes port 8080 with protocol HTTP. In the rendered health
  check an omitted healthy or unhealthy threshold becomes 2, an omitted interval 5000
  milliseconds, an omitted timeout 2000 milliseconds, an omitted port or protocol the port
  or protocol of the listener's port mapping, and an omitted path becomes '/' exactly when
  the effective protocol (the health check's own, or else the port mapping's) is HTTP and
  stays undefined otherwise.
\<close>

theorem addListeners_defaults:
  assumes ok: "addListeners validate this ls = (this', None)" and l: "l \<in> set ls"
  shows "\<exists>lp. listeners this' = listeners this @ [lp] \<and>
     ListenerProperty.portMapping lp =
       (case VirtualNodeListener.portMapping l of
          None \<Rightarrow> \<lparr>PortMapping.port = 8080, protocol = HTTP\<rparr> | Some pm \<Rightarrow> pm) \<and>
     (case VirtualNodeListener.healthCheck l of
        None \<Rightarrow> ListenerProperty.healthCheck lp = None
      | Some hc \<Rightarrow>
          (\<exists>r. ListenerProperty.healthCheck lp = Some r \<and>
             (HealthCheck.healthyThreshold hc = None \<longrightarrow> HealthCheckProperty.healthyThreshold r = 2) \<and>
             (HealthCheck.unhealthyThreshold hc = None \<longrightarrow> HealthCheckProperty.unhealthyThreshold r = 2) \<and>
             (interval hc = None \<longrightarrow> intervalMillis r = 5000) \<and>
             (timeout hc = None \<longrightarrow> timeoutMillis r = 2000) \<and>
             (HealthCheck.port hc = None \<longrightarrow>
                HealthCheckProperty.port r = PortMapping.port (ListenerProperty.portMapping lp)) \<and>
             (HealthCheck.protocol hc = None \<longrightarrow>
                HealthCheckProperty.protocol r = PortMapping.protocol (ListenerProperty.portMapping lp)) \<and>
             HealthCheckProperty.protocol r =
               (case HealthCheck.protocol hc of
                  None \<Rightarrow> PortMapping.protocol (ListenerProperty.portMapping lp) | Some q \<Rightarrow> q) \<and>
             (HealthCheck.path hc = None \<longrightarrow>
                HealthCheckProperty.path r =
                  (if HealthCheckProperty.protocol r = HTTP then Some ''/'' else None))))"
proof -
  from ok have "\<not> length (listeners this) + length ls > 1"
    by (auto simp: addListeners_def)
  then have "length ls \<le> 1" by simp
  with l have ls: "ls = [l]" by (cases ls) auto
  from ok ls obtain rhc where
    render: "renderHealthCheck validate (VirtualNodeListener.healthCheck l) (portMappingOf l) = Inr rhc"
    and this': "this' = this\<lparr>listeners := listeners this @
        [\<lparr>ListenerProperty.portMapping = portMappingOf l, healthCheck = rhc\<rparr>]\<rparr>"
    by (auto simp: addListeners_cases split: if_splits sum.splits)
  let ?lp = "\<lparr>ListenerProperty.portMapping = portMappingOf l, healthCheck = rhc\<rparr>"
  have pm: "ListenerProperty.portMapping ?lp =
       (case VirtualNodeListener.portMapping l of
          None \<Rightarrow> \<lparr>PortMapping.port = 8080, protocol = HTTP\<rparr> | Some pm \<Rightarrow> pm)"
    by (simp add: portMappingOf_def)
  show ?thesis
  proof (intro exI [of _ ?lp] conjI)
    show "listeners this' = listeners this @ [?lp]" by (simp add: this')
    show "ListenerProperty.portMapping ?lp =
       (case VirtualNodeListener.portMapping l of
          None \<Rightarrow> \<lparr>PortMapping.port = 8080, protocol = HTTP\<rparr> | Some pm \<Rightarrow> pm)" by (rule pm)
    show "case VirtualNodeListener.healthCheck l of
        None \<Rightarrow> ListenerProperty.healthCheck ?lp = None
      | Some hc \<Rightarrow>
          (\<exists>r. ListenerProperty.healthCheck ?lp = Some r \<and>
             (HealthCheck.healthyThreshold hc = None \<longrightarrow> HealthCheckProperty.healthyThreshold r = 2) \<and>
             (HealthCheck.unhealthyThreshold hc = None \<longrightarrow> HealthCheckProperty.unhealthyThreshold r = 2) \<and>
             (interval hc = None \<longrightarrow> intervalMillis r = 5000) \<and>
             (timeout hc = None \<longrightarrow> timeoutMillis r = 2000) \<and>
             (HealthCheck.port hc = None \<longrightarrow>
                HealthCheckProperty.port r = PortMapping.port (ListenerProperty.portMapping ?lp)) \<and>
             (HealthCheck.protocol hc = None \<longrightarrow>
                HealthCheckProperty.protocol r = PortMapping.protocol (ListenerProperty.portMapping ?lp)) \<and>
             HealthCheckProperty.protocol r =
               (case HealthCheck.protocol hc of
                  None \<Rightarrow> PortMapping.protocol (ListenerProperty.portMapping ?lp)
                | Some q \<Rightarrow> q) \<and>
             (HealthCheck.path hc = None \<longrightarrow>
                HealthCheckProperty.path r =
                  (if HealthCheckProperty.protocol r = HTTP then Some ''/'' else None)))"
    proof (cases "VirtualNodeListener.healthCheck l")
      case None
      with render show ?thesis by (simp add: renderHealthCheck_None)
    next
      case (Some h)
      with render obtain r where r: "rhc = Some r" "healthCheckProperty h (portMappingOf l) = Inr r"
        by (auto dest: renderHealthCheck_Inr)
      show ?thesis
        unfolding Some option.case
        using healthCheckProperty_defaults [OF r(2)]
        by (intro exI [of _ r]) (simp add: r(1) split: option.splits)
    qed
  qed
qed

text \<open>The theorem at work: the listener \<^verbatim>\<open>{ healthCheck: {} }\<close> on a node without listeners.\<close>

theorem addListeners_defaults_witness:
  "addListeners (\<lambda>_. True) emptyVirtualNode
     [\<lparr>VirtualNodeListener.portMapping = None, healthCheck = Some emptyHealthCheck\<rparr>]
     = (emptyVirtualNode\<lparr>listeners :=
          [\<lparr>ListenerProperty.portMapping = \<lparr>PortMapping.port = 8080, protocol = HTTP\<rparr>,
            healthCheck = Some
              \<lparr>HealthCheckProperty.healthyThreshold = 2, intervalMillis = 5000,
               path = Some ''/'', port = 8080, protocol = HTTP, timeoutMillis = 2000,
               unhealthyThreshold = 2\<rparr>\<rparr>]\<rparr>, None) \<and>
   \<lparr>VirtualNodeListener.portMapping = None, healthCheck = Some emptyHealthCheck\<rparr>
     \<in> set [\<lparr>VirtualNodeListener.portMapping = None, healthCheck = Some emptyHealthCheck\<rparr>] \<and>
   (\<exists>lp. listeners (emptyVirtualNode\<lparr>listeners :=
          [\<lparr>ListenerProperty.portMapping = \<lparr>PortMapping.port = 8080, protocol = HTTP\<rparr>,
            healthCheck = Some
              \<lparr>HealthCheckProperty.healthyThreshold = 2, intervalMillis = 5000,
               path = Some ''/'', port = 8080, protocol = HTTP, timeoutMillis = 2000,
               unhealthyThreshold = 2\<rparr>\<rparr>]\<rparr>) = listeners emptyVirtualNode @ [lp] \<and>
      ListenerProperty.portMapping lp = \<lparr>PortMapping.port = 8080, protocol = HTTP\<rparr> \<and>
      (\<exists>r. ListenerProperty.healthCheck lp = Some r \<and>
         HealthCheckProperty.healthyThreshold r = 2 \<and>
         HealthCheckProperty.unhealthyThreshold r = 2 \<and>
         intervalMillis r = 5000 \<and> timeoutMillis r = 2000 \<and>
         HealthCheckProperty.port r = 8080 \<and> HealthCheckProperty.protocol r = HTTP \<and>
         HealthCheckProperty.path r = Some ''/''))"
proof -
  have ok: "addListeners (\<lambda>_. True) emptyVirtualNode
     [\<lparr>VirtualNodeListener.portMapping = None, healthCheck = Some emptyHealthCheck\<rparr>]
     = (emptyVirtualNode\<lparr>listeners :=
          [\<lparr>ListenerProperty.portMapping = \<lparr>PortMapping.port = 8080, protocol = HTTP\<rparr>,
            healthCheck = Some
              \<lparr>HealthCheckProperty.healthyThreshold = 2, intervalMillis = 5000,
               path = Some ''/'', port = 8080, protocol = HTTP, timeoutMillis = 2000,
               unhealthyThreshold = 2\<rparr>\<rparr>]\<rparr>, None)"
    by (simp add: addListeners_def emptyVirtualNode_def emptyHealthCheck_def renderHealthCheck_def
        portMappingOf_def truthy_string_def healthCheckProperty_def or_number_def
        toMilliseconds_defaults)
  have mem: "\<lparr>VirtualNodeListener.portMapping = None, healthCheck = Some emptyHealthCheck\<rparr>
     \<in> set [\<lparr>VirtualNodeListener.portMapping = None, healthCheck = Some emptyHealthCheck\<rparr>]"
    by simp
  have omitted: "HealthCheck.healthyThreshold emptyHealthCheck = None"
    "HealthCheck.unhealthyThreshold emptyHealthCheck = None"
    "interval emptyHealthCheck = None" "timeout emptyHealthCheck = None"
    "HealthCheck.port emptyHealthCheck = None" "HealthCheck.protocol emptyHealthCheck = None"
    "HealthCheck.path emptyHealthCheck = None"
    by (simp_all add: emptyHealthCheck_def)
  from addListeners_defaults [OF ok mem] omitted ok mem show ?thesis
    by (simp del: VirtualNodeBase.simps)
qed

subsection \<open>C9: the legality check reads the explicit protocol only\<close>

text \<open>
  C9 (amended). The check of path against protocol reads only the protocol the health
  check itself supplies. For a listener whose health check leaves the protocol undefined,
  \<^verbatim>\<open>addListeners\<close> never throws either path error, whatever the protocol of the port
  mapping, TCP and GRPC included. Passed alone, such a listener is accepted exactly when
  the node holds no listener, the record of the health check can be built (its interval
  and timeout convert to milliseconds) and \<^verbatim>\<open>validateHealthChecks\<close> accepts that record. Whenever such a listener is accepted and its health check sets a non-empty
  path, the rendered record carries that path together with the protocol inherited from
  the port mapping.
\<close>

theorem legality_check_reads_explicit_protocol_only:
  assumes hc: "VirtualNodeListener.healthCheck l = Some hc"
    and pr: "HealthCheck.protocol hc = None"
  shows "renderHealthCheck validate (Some hc) pm \<noteq> Inl PathWithTCP \<and>
     renderHealthCheck validate (Some hc) pm \<noteq> Inl PathWithGRPC \<and>
     (l \<in> set ls \<longrightarrow>
        snd (addListeners validate this ls) \<noteq> Some PathWithTCP \<and>
        snd (addListeners validate this ls) \<noteq> Some PathWithGRPC) \<and>
     (snd (addListeners validate this [l]) = None \<longleftrightarrow>
        listeners this = [] \<and>
        (\<exists>r. healthCheckProperty hc (portMappingOf l) = Inr r \<and> validate r)) \<and>
     (l \<in> set ls \<and> addListeners validate this ls = (this', None) \<and>
      HealthCheck.path hc = Some p \<and> p \<noteq> [] \<longrightarrow>
        (\<exists>r. listeners this' = listeners this @
                [\<lparr>ListenerProperty.portMapping = portMappingOf l, healthCheck = Some r\<rparr>] \<and>
              HealthCheckProperty.path r = Some p \<and>
              HealthCheckProperty.protocol r = PortMapping.protocol (portMappingOf l)))"
proof -
  have render: "renderHealthCheck validate (Some hc) pm =
      (case healthCheckProperty hc pm of
         Inl e \<Rightarrow> Inl e
       | Inr r \<Rightarrow> if validate r then Inr (Some r) else Inl HealthCheckRejected)" for pm
    using pr by (simp add: renderHealthCheck_Some)
  have no_path_error: "renderHealthCheck validate (Some hc) pm \<noteq> Inl PathWithTCP"
    "renderHealthCheck validate (Some hc) pm \<noteq> Inl PathWithGRPC" for pm
    unfolding render by (auto split: sum.splits dest: healthCheckProperty_Inl)
  have single: "ls = [l]" if "l \<in> set ls" "\<not> length (listeners this) + length ls > 1" for ls
  proof -
    from that(2) have "length ls \<le> 1" by simp
    with that(1) show ?thesis by (cases ls) auto
  qed
  have a: "snd (addListeners validate this ls) \<noteq> Some PathWithTCP \<and>
        snd (addListeners validate this ls) \<noteq> Some PathWithGRPC" if l: "l \<in> set ls"
  proof (cases "length (listeners this) + length ls > 1")
    case True
    then show ?thesis by (simp add: addListeners_def)
  next
    case False
    with l have "ls = [l]" by (rule single)
    with False hc no_path_error [of "portMappingOf l"] show ?thesis
      by (auto simp: addListeners_cases split: sum.splits)
  qed
  have b: "snd (addListeners validate this [l]) = None \<longleftrightarrow>
        listeners this = [] \<and>
        (\<exists>r. healthCheckProperty hc (portMappingOf l) = Inr r \<and> validate r)"
    by (cases "listeners this")
       (auto simp: addListeners_cases hc render split: sum.splits)
  have c: "\<exists>r. listeners this' = listeners this @
                [\<lparr>ListenerProperty.portMapping = portMappingOf l, healthCheck = Some r\<rparr>] \<and>
              HealthCheckProperty.path r = Some p \<and>
              HealthCheckProperty.protocol r = PortMapping.protocol (portMappingOf l)"
    if l: "l \<in> set ls" and ok: "addListeners validate this ls = (this', None)"
      and p: "HealthCheck.path hc = Some p" "p \<noteq> []"
  proof -
    from ok have "\<not> length (listeners this) + length ls > 1"
      by (auto simp: addListeners_def)
    with l have ls: "ls = [l]" by (rule single)
    from ok ls hc obtain rhc where
      r: "renderHealthCheck validate (Some hc) (portMappingOf l) = Inr rhc"
      and this': "this' = this\<lparr>listeners := listeners this @
          [\<lparr>ListenerProperty.portMapping = portMappingOf l, healthCheck = rhc\<rparr>]\<rparr>"
      by (auto simp: addListeners_cases split: if_splits sum.splits)
    from r obtain q where q: "rhc = Some q" "healthCheckProperty hc (portMappingOf l) = Inr q"
      by (auto dest: renderHealthCheck_Inr)
    from healthCheckProperty_Inr [OF q(2)] p pr
    have "HealthCheckProperty.path q = Some p"
      "HealthCheckProperty.protocol q = PortMapping.protocol (portMappingOf l)"
      by (simp_all add: truthy_string_def)
    with this' q(1) show ?thesis by simp
  qed
  from no_path_error a b c show ?thesis by blast
qed

text \<open>
  The theorem at work: a path over a TCP port mapping, with \<^verbatim>\<open>validateHealthChecks\<close> the
  check of the bounds of the numeric fields.
\<close>

theorem legality_check_reads_explicit_protocol_only_witness:
  "VirtualNodeListener.healthCheck
     \<lparr>VirtualNodeListener.portMapping = Some \<lparr>PortMapping.port = 8080, protocol = TCP\<rparr>,
       healthCheck = Some (emptyHealthCheck\<lparr>HealthCheck.path := Some ''/ping''\<rparr>)\<rparr>
     = Some (emptyHealthCheck\<lparr>HealthCheck.path := Some ''/ping''\<rparr>) \<and>
   HealthCheck.protocol (emptyHealthCheck\<lparr>HealthCheck.path := Some ''/ping''\<rparr>) = None \<and>
   HealthCheck.path (emptyHealthCheck\<lparr>HealthCheck.path := Some ''/ping''\<rparr>) = Some ''/ping'' \<and>
   ''/ping'' \<noteq> [] \<and>
   addListeners
     (\<lambda>r. 2 \<le> HealthCheckProperty.healthyThreshold r \<and>
            HealthCheckProperty.healthyThreshold r \<le> 10 \<and>
            5000 \<le> intervalMillis r \<and> intervalMillis r \<le> 300000 \<and>
            1 \<le> HealthCheckProperty.port r \<and> HealthCheckProperty.port r \<le> 65535 \<and>
            2000 \<le> timeoutMillis r \<and> timeoutMillis r \<le> 60000 \<and>
            2 \<le> HealthCheckProperty.unhealthyThreshold r \<and>
            HealthCheckProperty.unhealthyThreshold r \<le> 10)
     emptyVirtualNode
     [\<lparr>VirtualNodeListener.portMapping = Some \<lparr>PortMapping.port = 8080, protocol = TCP\<rparr>,
       healthCheck = Some (emptyHealthCheck\<lparr>HealthCheck.path := Some ''/ping''\<rparr>)\<rparr>]
     = (emptyVirtualNode\<lparr>listeners :=
          [\<lparr>ListenerProperty.portMapping = \<lparr>PortMapping.port = 8080, protocol = TCP\<rparr>,
            healthCheck = Some
              \<lparr>HealthCheckProperty.healthyThreshold = 2, intervalMillis = 5000,
               path = Some ''/ping'', port = 8080, protocol = TCP, timeoutMillis = 2000,
               unhealthyThreshold = 2\<rparr>\<rparr>]\<rparr>, None) \<and>
   (\<exists>r. listeners (emptyVirtualNode\<lparr>listeners :=
          [\<lparr>ListenerProperty.portMapping = \<lparr>PortMapping.port = 8080, protocol = TCP\<rparr>,
            healthCheck = Some
              \<lparr>HealthCheckProperty.healthyThreshold = 2, intervalMillis = 5000,
               path = Some ''/ping'', port = 8080, protocol = TCP, timeoutMillis = 2000,
               unhealthyThreshold = 2\<rparr>\<rparr>]\<rparr>) = listeners emptyVirtualNode @
          [\<lparr>ListenerProperty.portMapping = \<lparr>PortMapping.port = 8080, protocol = TCP\<rparr>, healthCheck = Some r\<rparr>] \<and>
        HealthCheckProperty.path r = Some ''/ping'' \<and>
        HealthCheckProperty.protocol r = TCP)"
proof -
  have hc: "VirtualNodeListener.healthCheck
     \<lparr>VirtualNodeListener.portMapping = Some \<lparr>PortMapping.port = 8080, protocol = TCP\<rparr>,
       healthCheck = Some (emptyHealthCheck\<lparr>HealthCheck.path := Some ''/ping''\<rparr>)\<rparr>
     = Some (emptyHealthCheck\<lparr>HealthCheck.path := Some ''/ping''\<rparr>)"
    by simp
  have pr: "HealthCheck.protocol (emptyHealthCheck\<lparr>HealthCheck.path := Some ''/ping''\<rparr>) = None"
    by (simp add: emptyHealthCheck_def)
  have p: "HealthCheck.path (emptyHealthCheck\<lparr>HealthCheck.path := Some ''/ping''\<rparr>) = Some ''/ping''"
    by simp
  have ne: "''/ping'' \<noteq> []"
    by simp
  have mem: "\<lparr>VirtualNodeListener.portMapping = Some \<lparr>PortMapping.port = 8080, protocol = TCP\<rparr>,
       healthCheck = Some (emptyHealthCheck\<lparr>HealthCheck.path := Some ''/ping''\<rparr>)\<rparr>
     \<in> set [\<lparr>VirtualNodeListener.portMapping = Some \<lparr>PortMapping.port = 8080, protocol = TCP\<rparr>,
       healthCheck = Some (emptyHealthCheck\<lparr>HealthCheck.path := Some ''/ping''\<rparr>)\<rparr>]"
    by simp
  have ok: "addListeners
     (\<lambda>r. 2 \<le> HealthCheckProperty.healthyThreshold r \<and>
            HealthCheckProperty.healthyThreshold r \<le> 10 \<and>
            5000 \<le> intervalMillis r \<and> intervalMillis r \<le> 300000 \<and>
            1 \<le> HealthCheckProperty.port r \<and> HealthCheckProperty.port r \<le> 65535 \<and>
            2000 \<le> timeoutMillis r \<and> timeoutMillis r \<le> 60000 \<and>
            2 \<le> HealthCheckProperty.unhealthyThreshold r \<and>
            HealthCheckProperty.unhealthyThreshold r \<le> 10)
     emptyVirtualNode
     [\<lparr>VirtualNodeListener.portMapping = Some \<lparr>PortMapping.port = 8080, protocol = TCP\<rparr>,
       healthCheck = Some (emptyHealthCheck\<lparr>HealthCheck.path := Some ''/ping''\<rparr>)\<rparr>]
     = (emptyVirtualNode\<lparr>listeners :=
          [\<lparr>ListenerProperty.portMapping = \<lparr>PortMapping.port = 8080, protocol = TCP\<rparr>,
            healthCheck = Some
              \<lparr>HealthCheckProperty.healthyThreshold = 2, intervalMillis = 5000,
               path = Some ''/ping'', port = 8080, protocol = TCP, timeoutMillis = 2000,
               unhealthyThreshold = 2\<rparr>\<rparr>]\<rparr>, None)"
    by (simp add: addListeners_def emptyVirtualNode_def emptyHealthCheck_def renderHealthCheck_def
        portMappingOf_def truthy_string_def healthCheckProperty_def or_number_def
        toMilliseconds_defaults)
  have pm: "portMappingOf
     \<lparr>VirtualNodeListener.portMapping = Some \<lparr>PortMapping.port = 8080, protocol = TCP\<rparr>,
       healthCheck = Some (emptyHealthCheck\<lparr>HealthCheck.path := Some ''/ping''\<rparr>)\<rparr>
     = \<lparr>PortMapping.port = 8080, protocol = TCP\<rparr>"
    by (simp add: portMappingOf_def)
  from legality_check_reads_explicit_protocol_only [OF hc pr, THEN conjunct2, THEN conjunct2,
      THEN conjunct2, THEN conjunct2, rule_format, OF conjI [OF mem conjI [OF ok conjI [OF p ne]]]]
  have "\<exists>r. listeners (emptyVirtualNode\<lparr>listeners :=
          [\<lparr>ListenerProperty.portMapping = \<lparr>PortMapping.port = 8080, protocol = TCP\<rparr>,
            healthCheck = Some
              \<lparr>HealthCheckProperty.healthyThreshold = 2, intervalMillis = 5000,
               path = Some ''/ping'', port = 8080, protocol = TCP, timeoutMillis = 2000,
               unhealthyThreshold = 2\<rparr>\<rparr>]\<rparr>) = listeners emptyVirtualNode @
          [\<lparr>ListenerProperty.portMapping = \<lparr>PortMapping.port = 8080, protocol = TCP\<rparr>, healthCheck = Some r\<rparr>] \<and>
        HealthCheckProperty.path r = Some ''/ping'' \<and>
        HealthCheckProperty.protocol r = TCP"
    unfolding pm by simp
  with hc pr p ne ok show ?thesis by blast
qed

text \<open>
  As first stated the claim has every such call succeed and every path that is set
  carried into the rendered record. Three calls on a node without listeners, each with a
  TCP port mapping, the protocol of the health check undefined and \<^verbatim>\<open>validateHealthChecks\<close>
  the check of the bounds, show otherwise. The empty path is not carried: it counts as no
  path, and the rendered path is undefined. With the path '/ping' and a timeout such as
  \<^verbatim>\<open>Duration.seconds(2.0005)\<close> the call throws: the conversion to milliseconds throws. With
  the path '/ping' and a healthy threshold of 1 the call throws: \<^verbatim>\<open>validateHealthChecks\<close>
  rejects the record.
\<close>

theorem empty_path_not_carried_counterexample:
  "addListeners
       (\<lambda>r. 2 \<le> HealthCheckProperty.healthyThreshold r \<and>
            HealthCheckProperty.healthyThreshold r \<le> 10 \<and>
            5000 \<le> intervalMillis r \<and> intervalMillis r \<le> 300000 \<and>
            1 \<le> HealthCheckProperty.port r \<and> HealthCheckProperty.port r \<le> 65535 \<and>
            2000 \<le> timeoutMillis r \<and> timeoutMillis r \<le> 60000 \<and>
            2 \<le> HealthCheckProperty.unhealthyThreshold r \<and>
            HealthCheckProperty.unhealthyThreshold r \<le> 10)
       emptyVirtualNode
       [\<lparr>VirtualNodeListener.portMapping = Some \<lparr>PortMapping.port = 8080, protocol = TCP\<rparr>,
         healthCheck = Some (emptyHealthCheck\<lparr>HealthCheck.path := Some ''''\<rparr>)\<rparr>]
     = (emptyVirtualNode\<lparr>listeners :=
          [\<lparr>ListenerProperty.portMapping = \<lparr>PortMapping.port = 8080, protocol = TCP\<rparr>,
            healthCheck = Some
              \<lparr>HealthCheckProperty.healthyThreshold = 2, intervalMillis = 5000, path = None,
               port = 8080, protocol = TCP, timeoutMillis = 2000, unhealthyThreshold = 2\<rparr>\<rparr>]\<rparr>,
        None) \<and>
   addListeners
       (\<lambda>r. 2 \<le> HealthCheckProperty.healthyThreshold r \<and>
            HealthCheckProperty.healthyThreshold r \<le> 10 \<and>
            5000 \<le> intervalMillis r \<and> intervalMillis r \<le> 300000 \<and>
            1 \<le> HealthCheckProperty.port r \<and> HealthCheckProperty.port r \<le> 65535 \<and>
            2000 \<le> timeoutMillis r \<and> timeoutMillis r \<le> 60000 \<and>
            2 \<le> HealthCheckProperty.unhealthyThreshold r \<and>
            HealthCheckProperty.unhealthyThreshold r \<le> 10)
       emptyVirtualNode
       [\<lparr>VirtualNodeListener.portMapping = Some \<lparr>PortMapping.port = 8080, protocol = TCP\<rparr>,
         healthCheck = Some (emptyHealthCheck
           \<lparr>HealthCheck.path := Some ''/ping'',
            timeout := Some ConversionThrows\<rparr>)\<rparr>]
     = (emptyVirtualNode, Some NotWholeMillis) \<and>
   addListeners
       (\<lambda>r. 2 \<le> HealthCheckProperty.healthyThreshold r \<and>
            HealthCheckProperty.healthyThreshold r \<le> 10 \<and>
            5000 \<le> intervalMillis r \<and> intervalMillis r \<le> 300000 \<and>
            1 \<le> HealthCheckProperty.port r \<and> HealthCheckProperty.port r \<le> 65535 \<and>
            2000 \<le> timeoutMillis r \<and> timeoutMillis r \<le> 60000 \<and>
            2 \<le> HealthCheckProperty.unhealthyThreshold r \<and>
            HealthCheckProperty.unhealthyThreshold r \<le> 10)
       emptyVirtualNode
       [\<lparr>VirtualNodeListener.portMapping = Some \<lparr>PortMapping.port = 8080, protocol = TCP\<rparr>,
         healthCheck = Some (emptyHealthCheck
           \<lparr>HealthCheck.healthyThreshold := Some 1,
            HealthCheck.path := Some ''/ping''\<rparr>)\<rparr>]
     = (emptyVirtualNode, Some HealthCheckRejected)"
  by (simp add: addListeners_def emptyVirtualNode_def emptyHealthCheck_def renderHealthCheck_def
        portMappingOf_def truthy_string_def healthCheckProperty_def or_number_def
        toMilliseconds_defaults)

subsection \<open>C10: the trust of a client policy\<close>

text \<open>
  C10. For file-trust options whose certificate chain is a non-empty list,
  \<^verbatim>\<open>ClientPolicy.fileTrust(props).bind(scope)\<close> returns a client policy whose trust has the
  one member \<^verbatim>\<open>file\<close>, carrying the first element of the chain only. Its enforce flag is
  true whenever \<^verbatim>\<open>enforceTls\<close> is undefined, and its ports are \<^verbatim>\<open>props.ports\<close>.
  \<^verbatim>\<open>acmTrust\<close> instead puts the whole list of certificate-authority ARNs under the one
  member \<^verbatim>\<open>acm\<close>.
\<close>

theorem clientPolicy_trust_rendering:
  "(ClientPolicy_FileTrustOptions.certificateChain props = c # cs \<longrightarrow>
      ComputedTlsValidationContext.trust
        (ComputedClientPolicyTls.validation (ComputedClientPolicy.tls (ClientPolicyConfig.clientPolicy
          (ClientPolicyImpl_bind (ClientPolicy_fileTrust props) scope)))) =
        [''file'' \<mapsto> FileTrustValue (Some c)]) \<and>
   (enforceTls props = None \<longrightarrow>
      ComputedClientPolicyTls.enforce (ComputedClientPolicy.tls (ClientPolicyConfig.clientPolicy
        (ClientPolicyImpl_bind (ClientPolicy_fileTrust props) scope)))) \<and>
   ComputedClientPolicyTls.ports (ComputedClientPolicy.tls (ClientPolicyConfig.clientPolicy
        (ClientPolicyImpl_bind (ClientPolicy_fileTrust props) scope))) = ClientPolicyOptions.ports props \<and>
   ComputedTlsValidationContext.trust
        (ComputedClientPolicyTls.validation (ComputedClientPolicy.tls (ClientPolicyConfig.clientPolicy
          (ClientPolicyImpl_bind (ClientPolicy_acmTrust q) scope)))) =
        [''acm'' \<mapsto> AcmTrustValue (AcmTrustOptions.certificateAuthorityArns q)]"
  by (simp add: ClientPolicyImpl_bind_def ClientPolicy_fileTrust_def ClientPolicy_acmTrust_def
      ClientPolicyImpl_new_def ClientPolicyImpl_renderValidation_def index0_def)

theorem clientPolicy_trust_rendering_witness:
  "ClientPolicy_FileTrustOptions.certificateChain
      \<lparr>enforceTls = None, ports = Some [443], certificateChain = [''/certs/a.pem'', ''/certs/b.pem'']\<rparr>
     = ''/certs/a.pem'' # [''/certs/b.pem''] \<and>
   ComputedTlsValidationContext.trust
        (ComputedClientPolicyTls.validation (ComputedClientPolicy.tls (ClientPolicyConfig.clientPolicy
          (ClientPolicyImpl_bind (ClientPolicy_fileTrust
             \<lparr>enforceTls = None, ports = Some [443],
              certificateChain = [''/certs/a.pem'', ''/certs/b.pem'']\<rparr>) ())))) =
        [''file'' \<mapsto> FileTrustValue (Some ''/certs/a.pem'')] \<and>
   enforceTls \<lparr>enforceTls = None, ports = Some [443],
              certificateChain = [''/certs/a.pem'', ''/certs/b.pem'']\<rparr> = None \<and>
   ComputedClientPolicyTls.enforce (ComputedClientPolicy.tls (ClientPolicyConfig.clientPolicy
          (ClientPolicyImpl_bind (ClientPolicy_fileTrust
             \<lparr>enforceTls = None, ports = Some [443],
              certificateChain = [''/certs/a.pem'', ''/certs/b.pem'']\<rparr>) ())))"
  using clientPolicy_trust_rendering
    [of "\<lparr>enforceTls = None, ports = Some [443],
          certificateChain = [''/certs/a.pem'', ''/certs/b.pem'']\<rparr>"
        "''/certs/a.pem''" "[''/certs/b.pem'']" "()"]
  by simp

end
